theory Spec2Isabelle
  imports Main "HOL-Library.Word"
begin

section \<open>Particle storage: containers and blocks\<close>

text \<open>
  The development follows \<^verbatim>\<open>particles_container.hpp\<close> of the \<^verbatim>\<open>BParticles\<close>
  namespace. A \<^verbatim>\<open>ParticlesContainer\<close> owns a set of \<^verbatim>\<open>ParticlesBlock\<close> objects;
  a block refers back to its container and holds raw pointers to one array per attribute.
  Objects live in an explicit memory, and a pointer is an address in that memory.
\<close>

subsection \<open>Data model\<close>

type_synonym ptr = nat

text \<open>\<^verbatim>\<open>uint\<close> is a 32-bit unsigned integer; its arithmetic wraps.\<close>

type_synonym uint = "32 word"

text \<open>
  A \<^verbatim>\<open>float\<close> is kept as its 32-bit pattern: the storage layer only copies floats,
  it never computes with them. A \<^verbatim>\<open>Vec3\<close> is three floats.
\<close>

type_synonym float = "32 word"

type_synonym Vec3 = "float \<times> float \<times> float"

text \<open>
  The four failures named by the design, and \<open>UndefinedBehaviour\<close> for what C++ leaves
  undefined: a call through a pointer or reference to an object that does not exist, an
  index outside an array, a read of a cell that was never written.
\<close>

datatype error =
    ConfigError
  | UnknownAttribute
  | InvalidHandle
  | OutOfMemory
  | UndefinedBehaviour

text \<open>
  \<^verbatim>\<open>class ParticlesContainer\<close>: \<^verbatim>\<open>uint m_block_size\<close>, two
  \<^verbatim>\<open>SmallSetVector<std::string>\<close> of attribute names (kept as lists in insertion
  order) and the \<^verbatim>\<open>SmallSet<ParticlesBlock *>\<close> of live blocks.
\<close>

record ParticlesContainer =
  m_block_size :: uint
  m_float_attribute_names :: "string list"
  m_vec3_attribute_names :: "string list"
  m_blocks :: "ptr set"

text \<open>
  \<^verbatim>\<open>class ParticlesBlock\<close>: the reference \<^verbatim>\<open>ParticlesContainer &m_container\<close>,
  the vectors of \<^verbatim>\<open>float *\<close> and \<^verbatim>\<open>Vec3 *\<close>, and \<^verbatim>\<open>uint m_active_amount\<close>.
  There is no capacity field.
\<close>

record ParticlesBlock =
  m_container :: ptr
  m_float_buffers :: "ptr list"
  m_vec3_buffers :: "ptr list"
  m_active_amount :: uint

text \<open>
  The memory: one typed store per kind of object, the next unused address and the number
  of addresses that exist. An array cell is \<open>None\<close> until it is written.
\<close>

record memory =
  containers :: "ptr \<rightharpoonup> ParticlesContainer"
  blocks :: "ptr \<rightharpoonup> ParticlesBlock"
  float_arrays :: "ptr \<rightharpoonup> float option list"
  vec3_arrays :: "ptr \<rightharpoonup> Vec3 option list"
  next_free :: ptr
  heap_limit :: nat

definition empty_memory :: "nat \<Rightarrow> memory" where
  "empty_memory limit =
     \<lparr>containers = Map.empty, blocks = Map.empty, float_arrays = Map.empty,
      vec3_arrays = Map.empty, next_free = 0, heap_limit = limit\<rparr>"

subsection \<open>Library containers used by the header\<close>

text \<open>
  Modelled from the spec: \<^verbatim>\<open>SmallSetVector::index\<close> (\<^verbatim>\<open>BLI_small_set_vector.hpp\<close> is
  not among the sources). The spec: insertion order defines index assignment, and a lookup
  of a name that is not registered fails with \<open>UnknownAttribute\<close>.
\<close>

fun index :: "string list \<Rightarrow> string \<Rightarrow> error + nat" where
  "index [] value = Inl UnknownAttribute"
| "index (x # xs) value =
     (if x = value then Inr 0
      else (case index xs value of Inl e \<Rightarrow> Inl e | Inr i \<Rightarrow> Inr (Suc i)))"

text \<open>
  \<^verbatim>\<open>SmallVector::operator[]\<close> on a vector of pointers: an index outside the vector is
  undefined in C++.
\<close>

definition at_index :: "'a list \<Rightarrow> uint \<Rightarrow> error + 'a" where
  "at_index xs i = (if unat i < length xs then Inr (xs ! unat i) else Inl UndefinedBehaviour)"

subsection \<open>ParticlesContainer: the inline members\<close>

definition block_size :: "ParticlesContainer \<Rightarrow> uint" where
  "block_size c = m_block_size c"

text \<open>The amounts are \<^verbatim>\<open>uint\<close>: the size of the name vector, converted.\<close>

definition float_attribute_amount :: "ParticlesContainer \<Rightarrow> uint" where
  "float_attribute_amount c = of_nat (length (m_float_attribute_names c))"

definition vec3_attribute_amount :: "ParticlesContainer \<Rightarrow> uint" where
  "vec3_attribute_amount c = of_nat (length (m_vec3_attribute_names c))"

text \<open>
  \<^verbatim>\<open>return m_float_attribute_names.index(name.to_std_string());\<close> with return type
  \<^verbatim>\<open>uint\<close>: the index is converted, a failure of the lookup passes through.
\<close>

definition float_buffer_index :: "ParticlesContainer \<Rightarrow> string \<Rightarrow> error + uint" where
  "float_buffer_index c name =
     (case index (m_float_attribute_names c) name of
        Inl e \<Rightarrow> Inl e
      | Inr i \<Rightarrow> Inr (of_nat i))"

definition vec3_buffer_index :: "ParticlesContainer \<Rightarrow> string \<Rightarrow> error + uint" where
  "vec3_buffer_index c name =
     (case index (m_vec3_attribute_names c) name of
        Inl e \<Rightarrow> Inl e
      | Inr i \<Rightarrow> Inr (of_nat i))"

definition active_blocks :: "ParticlesContainer \<Rightarrow> ptr set" where
  "active_blocks c = m_blocks c"

subsection \<open>ParticlesBlock: the inline members\<close>

text \<open>
  Every member is called on a block pointer \<open>this\<close>; a pointer that is not a block of the
  memory, or a block whose container is gone, is undefined behaviour.
\<close>

definition container :: "memory \<Rightarrow> ptr \<Rightarrow> error + ptr" where
  "container mem this =
     (case blocks mem this of
        None \<Rightarrow> Inl UndefinedBehaviour
      | Some b \<Rightarrow> Inr (m_container b))"

text \<open>
  \<^verbatim>\<open>uint &active_amount()\<close> returns a reference: reading it is \<open>active_amount\<close>,
  assigning through it is \<open>set_active_amount\<close>. Nothing checks the assigned value.
\<close>

definition active_amount :: "memory \<Rightarrow> ptr \<Rightarrow> error + uint" where
  "active_amount mem this =
     (case blocks mem this of
        None \<Rightarrow> Inl UndefinedBehaviour
      | Some b \<Rightarrow> Inr (m_active_amount b))"

definition set_active_amount :: "memory \<Rightarrow> ptr \<Rightarrow> uint \<Rightarrow> error + memory" where
  "set_active_amount mem this n =
     (case blocks mem this of
        None \<Rightarrow> Inl UndefinedBehaviour
      | Some b \<Rightarrow> Inr (mem\<lparr>blocks := (blocks mem)(this \<mapsto> b\<lparr>m_active_amount := n\<rparr>)\<rparr>))"

text \<open>\<^verbatim>\<open>return m_container.block_size();\<close>\<close>

definition size_block :: "memory \<Rightarrow> ptr \<Rightarrow> error + uint" where
  "size_block mem this =
     (case blocks mem this of
        None \<Rightarrow> Inl UndefinedBehaviour
      | Some b \<Rightarrow>
          (case containers mem (m_container b) of
             None \<Rightarrow> Inl UndefinedBehaviour
           | Some c \<Rightarrow> Inr (block_size c)))"

text \<open>\<^verbatim>\<open>return m_active_amount == this->size();\<close>\<close>

definition is_full :: "memory \<Rightarrow> ptr \<Rightarrow> error + bool" where
  "is_full mem this =
     (case blocks mem this of
        None \<Rightarrow> Inl UndefinedBehaviour
      | Some b \<Rightarrow>
          (case size_block mem this of
             Inl e \<Rightarrow> Inl e
           | Inr s \<Rightarrow> Inr (m_active_amount b = s)))"

text \<open>\<^verbatim>\<open>return m_active_amount;\<close>\<close>

definition next_inactive_index :: "memory \<Rightarrow> ptr \<Rightarrow> error + uint" where
  "next_inactive_index mem this =
     (case blocks mem this of
        None \<Rightarrow> Inl UndefinedBehaviour
      | Some b \<Rightarrow> Inr (m_active_amount b))"

text \<open>\<^verbatim>\<open>m_active_amount = 0;\<close>\<close>

definition clear :: "memory \<Rightarrow> ptr \<Rightarrow> error + memory" where
  "clear mem this =
     (case blocks mem this of
        None \<Rightarrow> Inl UndefinedBehaviour
      | Some b \<Rightarrow> Inr (mem\<lparr>blocks := (blocks mem)(this \<mapsto> b\<lparr>m_active_amount := 0\<rparr>)\<rparr>))"

definition float_buffers :: "memory \<Rightarrow> ptr \<Rightarrow> error + ptr list" where
  "float_buffers mem this =
     (case blocks mem this of
        None \<Rightarrow> Inl UndefinedBehaviour
      | Some b \<Rightarrow> Inr (m_float_buffers b))"

definition vec3_buffers :: "memory \<Rightarrow> ptr \<Rightarrow> error + ptr list" where
  "vec3_buffers mem this =
     (case blocks mem this of
        None \<Rightarrow> Inl UndefinedBehaviour
      | Some b \<Rightarrow> Inr (m_vec3_buffers b))"

text \<open>
  \<^verbatim>\<open>uint index = m_container.float_buffer_index(name); return m_float_buffers[index];\<close>
\<close>

definition float_buffer :: "memory \<Rightarrow> ptr \<Rightarrow> string \<Rightarrow> error + ptr" where
  "float_buffer mem this name =
     (case blocks mem this of
        None \<Rightarrow> Inl UndefinedBehaviour
      | Some b \<Rightarrow>
          (case containers mem (m_container b) of
             None \<Rightarrow> Inl UndefinedBehaviour
           | Some c \<Rightarrow>
               (case float_buffer_index c name of
                  Inl e \<Rightarrow> Inl e
                | Inr i \<Rightarrow> at_index (m_float_buffers b) i)))"

definition vec3_buffer :: "memory \<Rightarrow> ptr \<Rightarrow> string \<Rightarrow> error + ptr" where
  "vec3_buffer mem this name =
     (case blocks mem this of
        None \<Rightarrow> Inl UndefinedBehaviour
      | Some b \<Rightarrow>
          (case containers mem (m_container b) of
             None \<Rightarrow> Inl UndefinedBehaviour
           | Some c \<Rightarrow>
               (case vec3_buffer_index c name of
                  Inl e \<Rightarrow> Inl e
                | Inr i \<Rightarrow> at_index (m_vec3_buffers b) i)))"

subsection \<open>Access through the returned array pointers\<close>

text \<open>
  The accessors hand out raw \<^verbatim>\<open>float *\<close> and \<^verbatim>\<open>Vec3 *\<close>; the caller reads
  \<^verbatim>\<open>p[i]\<close> and writes \<^verbatim>\<open>p[i] = v\<close>.
\<close>

definition load_float :: "memory \<Rightarrow> ptr \<Rightarrow> nat \<Rightarrow> error + float" where
  "load_float mem p i =
     (case float_arrays mem p of
        None \<Rightarrow> Inl UndefinedBehaviour
      | Some cells \<Rightarrow>
          if i < length cells
          then (case cells ! i of None \<Rightarrow> Inl UndefinedBehaviour | Some v \<Rightarrow> Inr v)
          else Inl UndefinedBehaviour)"

definition store_float :: "memory \<Rightarrow> ptr \<Rightarrow> nat \<Rightarrow> float \<Rightarrow> error + memory" where
  "store_float mem p i v =
     (case float_arrays mem p of
        None \<Rightarrow> Inl UndefinedBehaviour
      | Some cells \<Rightarrow>
          if i < length cells
          then Inr (mem\<lparr>float_arrays := (float_arrays mem)(p \<mapsto> cells[i := Some v])\<rparr>)
          else Inl UndefinedBehaviour)"

definition load_vec3 :: "memory \<Rightarrow> ptr \<Rightarrow> nat \<Rightarrow> error + Vec3" where
  "load_vec3 mem p i =
     (case vec3_arrays mem p of
        None \<Rightarrow> Inl UndefinedBehaviour
      | Some cells \<Rightarrow>
          if i < length cells
          then (case cells ! i of None \<Rightarrow> Inl UndefinedBehaviour | Some v \<Rightarrow> Inr v)
          else Inl UndefinedBehaviour)"

definition store_vec3 :: "memory \<Rightarrow> ptr \<Rightarrow> nat \<Rightarrow> Vec3 \<Rightarrow> error + memory" where
  "store_vec3 mem p i v =
     (case vec3_arrays mem p of
        None \<Rightarrow> Inl UndefinedBehaviour
      | Some cells \<Rightarrow>
          if i < length cells
          then Inr (mem\<lparr>vec3_arrays := (vec3_arrays mem)(p \<mapsto> cells[i := Some v])\<rparr>)
          else Inl UndefinedBehaviour)"

subsection \<open>The members that are only declared in the header\<close>

text \<open>
  Modelled from the spec: the constructor \<^verbatim>\<open>ParticlesContainer::ParticlesContainer\<close>
  (declared in the header, its body is not among the sources). The spec: builds the schema;
  fails with \<open>ConfigError\<close> if the block size is 0 or if either name list contains
  duplicates. The names are added one at a time, in the order given; a name that is already
  there is the duplicate.
\<close>

fun add_names :: "string list \<Rightarrow> string list \<Rightarrow> error + string list" where
  "add_names registered [] = Inr registered"
| "add_names registered (name # names) =
     (if name \<in> set registered then Inl ConfigError
      else add_names (registered @ [name]) names)"

definition ParticlesContainer_ctor ::
    "uint \<Rightarrow> string list \<Rightarrow> string list \<Rightarrow> error + ParticlesContainer" where
  "ParticlesContainer_ctor blk_size float_attribute_names vec3_attribute_names =
     (if blk_size = 0 then Inl ConfigError
      else
        (case add_names [] float_attribute_names of
           Inl e \<Rightarrow> Inl e
         | Inr float_names \<Rightarrow>
             (case add_names [] vec3_attribute_names of
                Inl e \<Rightarrow> Inl e
              | Inr vec3_names \<Rightarrow>
                  Inr \<lparr>m_block_size = blk_size,
                       m_float_attribute_names = float_names,
                       m_vec3_attribute_names = vec3_names,
                       m_blocks = {}\<rparr>)))"

text \<open>
  Taking an unused address; there is none left once \<open>next_free\<close> reaches \<open>heap_limit\<close>.
\<close>

definition alloc :: "memory \<Rightarrow> error + (ptr \<times> memory)" where
  "alloc mem =
     (if next_free mem < heap_limit mem
      then Inr (next_free mem, mem\<lparr>next_free := next_free mem + 1\<rparr>)
      else Inl OutOfMemory)"

text \<open>\<^verbatim>\<open>new ParticlesContainer(block_size, float_attribute_names, vec3_attribute_names)\<close>\<close>

definition new_container ::
    "memory \<Rightarrow> uint \<Rightarrow> string list \<Rightarrow> string list \<Rightarrow> error + (ptr \<times> memory)" where
  "new_container mem blk_size float_attribute_names vec3_attribute_names =
     (case ParticlesContainer_ctor blk_size float_attribute_names vec3_attribute_names of
        Inl e \<Rightarrow> Inl e
      | Inr c \<Rightarrow>
          (case alloc mem of
             Inl e \<Rightarrow> Inl e
           | Inr (p, mem1) \<Rightarrow> Inr (p, mem1\<lparr>containers := (containers mem1)(p \<mapsto> c)\<rparr>)))"

text \<open>
  Modelled from the spec: the constructor \<^verbatim>\<open>ParticlesBlock::ParticlesBlock\<close> (declared
  in the header with the default argument \<^verbatim>\<open>active_amount = 0\<close>, its body is not among the
  sources). It stores its arguments.
\<close>

definition ParticlesBlock_ctor :: "ptr \<Rightarrow> ptr list \<Rightarrow> ptr list \<Rightarrow> uint \<Rightarrow> ParticlesBlock" where
  "ParticlesBlock_ctor cont float_bufs vec3_bufs amount =
     \<lparr>m_container = cont, m_float_buffers = float_bufs,
      m_vec3_buffers = vec3_bufs, m_active_amount = amount\<rparr>"

text \<open>Allocating \<open>count\<close> arrays of \<open>len\<close> cells each; the cells are not initialised.\<close>

fun alloc_float_buffers :: "memory \<Rightarrow> nat \<Rightarrow> nat \<Rightarrow> error + (ptr list \<times> memory)" where
  "alloc_float_buffers mem 0 len = Inr ([], mem)"
| "alloc_float_buffers mem (Suc count) len =
     (case alloc mem of
        Inl e \<Rightarrow> Inl e
      | Inr (p, mem1) \<Rightarrow>
          (case alloc_float_buffers
                  (mem1\<lparr>float_arrays := (float_arrays mem1)(p \<mapsto> replicate len None)\<rparr>)
                  count len of
             Inl e \<Rightarrow> Inl e
           | Inr (ps, mem2) \<Rightarrow> Inr (p # ps, mem2)))"

fun alloc_vec3_buffers :: "memory \<Rightarrow> nat \<Rightarrow> nat \<Rightarrow> error + (ptr list \<times> memory)" where
  "alloc_vec3_buffers mem 0 len = Inr ([], mem)"
| "alloc_vec3_buffers mem (Suc count) len =
     (case alloc mem of
        Inl e \<Rightarrow> Inl e
      | Inr (p, mem1) \<Rightarrow>
          (case alloc_vec3_buffers
                  (mem1\<lparr>vec3_arrays := (vec3_arrays mem1)(p \<mapsto> replicate len None)\<rparr>)
                  count len of
             Inl e \<Rightarrow> Inl e
           | Inr (ps, mem2) \<Rightarrow> Inr (p # ps, mem2)))"

text \<open>
  Modelled from the spec: \<^verbatim>\<open>ParticlesContainer::new_block\<close> (declared in the header, its
  body is not among the sources). The spec: allocates a fresh block, with the active count
  0, allocates one buffer of \<open>blockSize\<close> cells per registered attribute, registers the
  block in the live-block set and returns it; it fails only with \<open>OutOfMemory\<close>.
\<close>

definition new_block :: "memory \<Rightarrow> ptr \<Rightarrow> error + (ptr \<times> memory)" where
  "new_block mem this =
     (case containers mem this of
        None \<Rightarrow> Inl UndefinedBehaviour
      | Some c \<Rightarrow>
          (case alloc_float_buffers mem (length (m_float_attribute_names c))
                  (unat (block_size c)) of
             Inl e \<Rightarrow> Inl e
           | Inr (float_bufs, mem1) \<Rightarrow>
               (case alloc_vec3_buffers mem1 (length (m_vec3_attribute_names c))
                       (unat (block_size c)) of
                  Inl e \<Rightarrow> Inl e
                | Inr (vec3_bufs, mem2) \<Rightarrow>
                    (case alloc mem2 of
                       Inl e \<Rightarrow> Inl e
                     | Inr (block, mem3) \<Rightarrow>
                         Inr (block,
                              mem3\<lparr>blocks := (blocks mem3)
                                      (block \<mapsto> ParticlesBlock_ctor this float_bufs vec3_bufs 0),
                                    containers := (containers mem3)
                                      (this \<mapsto> c\<lparr>m_blocks := insert block (m_blocks c)\<rparr>)\<rparr>)))))"

text \<open>
  Modelled from the spec: \<^verbatim>\<open>ParticlesContainer::release_block\<close> (declared in the header,
  its body is not among the sources). The spec: removes the block from the live-block set
  and frees its buffers; fails with \<open>InvalidHandle\<close> if the block is not currently owned by
  this container. The result is paired with the memory after the call, also when the call
  fails.
\<close>

definition release_block :: "memory \<Rightarrow> ptr \<Rightarrow> ptr \<Rightarrow> (error + unit) \<times> memory" where
  "release_block mem this block =
     (case containers mem this of
        None \<Rightarrow> (Inl UndefinedBehaviour, mem)
      | Some c \<Rightarrow>
          if block \<notin> m_blocks c then (Inl InvalidHandle, mem)
          else
            (case blocks mem block of
               None \<Rightarrow> (Inl UndefinedBehaviour, mem)
             | Some b \<Rightarrow>
                 (Inr (),
                  mem\<lparr>containers := (containers mem)(this \<mapsto> c\<lparr>m_blocks := m_blocks c - {block}\<rparr>),
                      blocks := (blocks mem)(block := None),
                      float_arrays := float_arrays mem |` (- set (m_float_buffers b)),
                      vec3_arrays := vec3_arrays mem |` (- set (m_vec3_buffers b))\<rparr>)))"

subsection \<open>Well-formed blocks and ownership\<close>

text \<open>
  What \<open>new_block\<close> establishes for the block it returns: one buffer per registered
  attribute, the buffers of a kind pairwise different, each an allocated array of
  \<open>block_size\<close> cells. The name vectors have a \<^verbatim>\<open>uint\<close> size, so they are shorter
  than \<open>2 ^ 32\<close>.
\<close>

definition array_of_length :: "(ptr \<rightharpoonup> 'a list) \<Rightarrow> nat \<Rightarrow> ptr \<Rightarrow> bool" where
  "array_of_length store len p =
     (case store p of None \<Rightarrow> False | Some cells \<Rightarrow> length cells = len)"

definition block_ok :: "memory \<Rightarrow> ptr \<Rightarrow> bool" where
  "block_ok mem this =
     (case blocks mem this of
        None \<Rightarrow> False
      | Some b \<Rightarrow>
          (case containers mem (m_container b) of
             None \<Rightarrow> False
           | Some c \<Rightarrow>
               length (m_float_attribute_names c) < 2 ^ 32 \<and>
               length (m_vec3_attribute_names c) < 2 ^ 32 \<and>
               length (m_float_buffers b) = length (m_float_attribute_names c) \<and>
               length (m_vec3_buffers b) = length (m_vec3_attribute_names c) \<and>
               distinct (m_float_buffers b) \<and>
               distinct (m_vec3_buffers b) \<and>
               list_all (array_of_length (float_arrays mem) (unat (block_size c)))
                 (m_float_buffers b) \<and>
               list_all (array_of_length (vec3_arrays mem) (unat (block_size c)))
                 (m_vec3_buffers b)))"

text \<open>
  Ownership: every live block of a container is an allocated block object that refers back
  to that container.
\<close>

definition ownership_ok :: "memory \<Rightarrow> bool" where
  "ownership_ok mem \<longleftrightarrow>
     (\<forall>cp c block. containers mem cp = Some c \<and> block \<in> m_blocks c \<longrightarrow>
        block < next_free mem \<and>
        (case blocks mem block of None \<Rightarrow> False | Some b \<Rightarrow> m_container b = cp))"

text \<open>
  The cell \<open>i\<close> of the float buffer of attribute \<open>name\<close>, as
  \<^verbatim>\<open>block->float_buffer(name)[i]\<close> finds it; \<open>Inr None\<close> is a cell never written.
\<close>

definition float_cell :: "memory \<Rightarrow> ptr \<Rightarrow> string \<Rightarrow> nat \<Rightarrow> error + float option" where
  "float_cell mem this name i =
     (case float_buffer mem this name of
        Inl e \<Rightarrow> Inl e
      | Inr p \<Rightarrow>
          (case float_arrays mem p of
             None \<Rightarrow> Inl UndefinedBehaviour
           | Some cells \<Rightarrow> if i < length cells then Inr (cells ! i) else Inl UndefinedBehaviour))"

subsection \<open>A run of the interface\<close>

text \<open>
  Two containers are constructed in an empty memory of 16 addresses, the first with block
  size 4, float attributes mass and age and the vec3 attribute position, the second with
  block size 2 and the float attribute mass; then each container makes one block.
\<close>

definition scenario_steps :: "error + memory" where
  "scenario_steps =
     (case new_container (empty_memory 16) 4 [''mass'', ''age''] [''position''] of
        Inl e \<Rightarrow> Inl e
      | Inr (c1, mem1) \<Rightarrow>
          (case new_container mem1 2 [''mass''] [] of
             Inl e \<Rightarrow> Inl e
           | Inr (c2, mem2) \<Rightarrow>
               (case new_block mem2 c1 of
                  Inl e \<Rightarrow> Inl e
                | Inr (b1, mem3) \<Rightarrow>
                    (case new_block mem3 c2 of
                       Inl e \<Rightarrow> Inl e
                     | Inr (b2, mem4) \<Rightarrow> Inr mem4))))"

text \<open>The memory that run ends in (\<open>scenario_steps_eq\<close> below).\<close>

definition scenario_memory :: memory where
  "scenario_memory =
     \<lparr>containers =
        [0 \<mapsto> \<lparr>m_block_size = 4, m_float_attribute_names = [''mass'', ''age''],
                m_vec3_attribute_names = [''position''], m_blocks = {5}\<rparr>,
         1 \<mapsto> \<lparr>m_block_size = 2, m_float_attribute_names = [''mass''],
                m_vec3_attribute_names = [], m_blocks = {7}\<rparr>],
      blocks =
        [5 \<mapsto> \<lparr>m_container = 0, m_float_buffers = [2, 3], m_vec3_buffers = [4],
                m_active_amount = 0\<rparr>,
         7 \<mapsto> \<lparr>m_container = 1, m_float_buffers = [6], m_vec3_buffers = [],
                m_active_amount = 0\<rparr>],
      float_arrays =
        [2 \<mapsto> [None, None, None, None], 3 \<mapsto> [None, None, None, None],
         6 \<mapsto> [None, None]],
      vec3_arrays = [4 \<mapsto> [None, None, None, None]],
      next_free = 8,
      heap_limit = 16\<rparr>"

section \<open>Properties\<close>

subsection \<open>Name lookup and construction\<close>

lemma index_unregistered: "name \<notin> set names \<Longrightarrow> index names name = Inl UnknownAttribute"
  by (induction names) auto

lemma index_registered:
  "distinct names \<Longrightarrow> i < length names \<Longrightarrow> index names (names ! i) = Inr i"
proof (induction names arbitrary: i)
  case Nil
  then show ?case by simp
next
  case (Cons x xs)
  show ?case
  proof (cases i)
    case 0
    then show ?thesis by simp
  next
    case (Suc j)
    with Cons.prems have "j < length xs" "distinct xs" "xs ! j \<noteq> x"
      by auto
    with Cons.IH [of j] Suc show ?thesis by auto
  qed
qed

lemma index_result: "index names name = Inr i \<Longrightarrow> i < length names \<and> names ! i = name"
  by (induction names arbitrary: i) (auto split: if_splits sum.splits)

lemma index_member: "name \<in> set names \<Longrightarrow> \<exists>i. index names name = Inr i"
  by (induction names) auto

lemma add_names_eq:
  "add_names registered names =
     (if distinct names \<and> set registered \<inter> set names = {} then Inr (registered @ names)
      else Inl ConfigError)"
  by (induction names arbitrary: registered) auto

lemma ctor_eq:
  "ParticlesContainer_ctor n fs vs =
     (if n = 0 \<or> \<not> distinct fs \<or> \<not> distinct vs then Inl ConfigError
      else Inr \<lparr>m_block_size = n, m_float_attribute_names = fs,
                m_vec3_attribute_names = vs, m_blocks = {}\<rparr>)"
  by (simp add: ParticlesContainer_ctor_def add_names_eq)

lemma replicate_4: "replicate 4 x = [x, x, x, x]"
  by (simp add: eval_nat_numeral)

lemma replicate_2: "replicate 2 x = [x, x]"
  by (simp add: eval_nat_numeral)

lemma scenario_steps_eq: "scenario_steps = Inr scenario_memory"
  unfolding scenario_steps_def scenario_memory_def
  apply (simp add: new_container_def ParticlesContainer_ctor_def alloc_def empty_memory_def
      new_block_def block_size_def ParticlesBlock_ctor_def replicate_4 replicate_2)
  apply (simp add: eval_nat_numeral)
  done

text \<open>
  C2. Constructing a container fails with \<open>ConfigError\<close> whenever the block size is 0 or
  one of the two name lists has a duplicate. For every other input it succeeds, and the
  container it gives has the block size and the names as given, no live block, and looks
  every name up at its position in the list it came from.
\<close>

theorem construct_checks_configuration:
  "(n = 0 \<or> \<not> distinct fs \<or> \<not> distinct vs \<longrightarrow>
      ParticlesContainer_ctor n fs vs = Inl ConfigError) \<and>
   (n \<noteq> 0 \<and> distinct fs \<and> distinct vs \<longrightarrow>
      (\<exists>c. ParticlesContainer_ctor n fs vs = Inr c \<and>
           block_size c = n \<and>
           m_float_attribute_names c = fs \<and>
           m_vec3_attribute_names c = vs \<and>
           active_blocks c = {} \<and>
           (\<forall>i < length fs. float_buffer_index c (fs ! i) = Inr (of_nat i)) \<and>
           (\<forall>i < length vs. vec3_buffer_index c (vs ! i) = Inr (of_nat i))))"
  by (simp add: ctor_eq block_size_def active_blocks_def float_buffer_index_def
      vec3_buffer_index_def index_registered)

theorem construct_checks_configuration_witness:
  "ParticlesContainer_ctor 0 [''mass''] [''position''] = Inl ConfigError \<and>
   ParticlesContainer_ctor 4 [''mass'', ''age'', ''mass''] [''position''] = Inl ConfigError \<and>
   ParticlesContainer_ctor 4 [''mass''] [''position'', ''position''] = Inl ConfigError \<and>
   (\<exists>c. ParticlesContainer_ctor 4 [''mass'', ''age''] [''position''] = Inr c \<and>
        float_buffer_index c ''mass'' = Inr 0 \<and>
        float_buffer_index c ''age'' = Inr 1 \<and>
        vec3_buffer_index c ''position'' = Inr 0)"
  using construct_checks_configuration [of 0 "[''mass'']" "[''position'']"]
    construct_checks_configuration [of 4 "[''mass'', ''age'', ''mass'']" "[''position'']"]
    construct_checks_configuration [of 4 "[''mass'']" "[''position'', ''position'']"]
    construct_checks_configuration [of 4 "[''mass'', ''age'']" "[''position'']"]
  by (auto simp: float_buffer_index_def vec3_buffer_index_def)

subsection \<open>Facts about the run\<close>

lemma scenario_container_0:
  "containers scenario_memory 0 =
     Some \<lparr>m_block_size = 4, m_float_attribute_names = [''mass'', ''age''],
           m_vec3_attribute_names = [''position''], m_blocks = {5}\<rparr>"
  by (simp add: scenario_memory_def)

lemma scenario_container_1:
  "containers scenario_memory 1 =
     Some \<lparr>m_block_size = 2, m_float_attribute_names = [''mass''],
           m_vec3_attribute_names = [], m_blocks = {7}\<rparr>"
  by (simp add: scenario_memory_def)

lemma scenario_block_5:
  "blocks scenario_memory 5 =
     Some \<lparr>m_container = 0, m_float_buffers = [2, 3], m_vec3_buffers = [4],
           m_active_amount = 0\<rparr>"
  by (simp add: scenario_memory_def)

lemma scenario_block_7:
  "blocks scenario_memory 7 =
     Some \<lparr>m_container = 1, m_float_buffers = [6], m_vec3_buffers = [],
           m_active_amount = 0\<rparr>"
  by (simp add: scenario_memory_def)

lemma scenario_block_5_container:
  "containers scenario_memory
     (m_container \<lparr>m_container = 0, m_float_buffers = [2, 3], m_vec3_buffers = [4],
        m_active_amount = 0\<rparr>) =
   Some \<lparr>m_block_size = 4, m_float_attribute_names = [''mass'', ''age''],
     m_vec3_attribute_names = [''position''], m_blocks = {5}\<rparr>"
  by (simp add: scenario_memory_def)

lemma scenario_block_7_container:
  "containers scenario_memory
     (m_container \<lparr>m_container = 1, m_float_buffers = [6], m_vec3_buffers = [],
        m_active_amount = 0\<rparr>) =
   Some \<lparr>m_block_size = 2, m_float_attribute_names = [''mass''],
     m_vec3_attribute_names = [], m_blocks = {7}\<rparr>"
  by (simp add: scenario_memory_def)

lemma scenario_float_array_2: "float_arrays scenario_memory 2 = Some [None, None, None, None]"
  by (simp add: scenario_memory_def)

lemma scenario_ownership_ok: "ownership_ok scenario_memory"
  by (auto simp: ownership_ok_def scenario_memory_def split: if_splits)

lemma scenario_new_block: "\<exists>r. new_block scenario_memory 0 = Inr r"
  by (simp add: new_block_def scenario_memory_def alloc_def block_size_def)

lemma scenario_release: "\<exists>mem'. release_block scenario_memory 0 5 = (Inr (), mem')"
  by (simp add: release_block_def scenario_memory_def)

lemma unat_of_nat_32: "i < 2 ^ 32 \<Longrightarrow> unat (of_nat i :: uint) = i"
  by (simp add: unat_of_nat)

lemma attribute_amounts:
  "length (m_float_attribute_names c) < 2 ^ 32 \<Longrightarrow>
     unat (float_attribute_amount c) = length (m_float_attribute_names c)"
  "length (m_vec3_attribute_names c) < 2 ^ 32 \<Longrightarrow>
     unat (vec3_attribute_amount c) = length (m_vec3_attribute_names c)"
  by (simp_all add: float_attribute_amount_def vec3_attribute_amount_def unat_of_nat_32)

subsection \<open>Unknown attribute names\<close>

text \<open>
  C3. For a name that is not among the float attribute names of a container,
  \<open>float_buffer_index\<close> fails with \<open>UnknownAttribute\<close>, and so does \<open>float_buffer\<close> on every
  block of that container, in every memory; the same holds for the vec3 attribute names,
  \<open>vec3_buffer_index\<close> and \<open>vec3_buffer\<close>. No index and no default is returned.
\<close>

theorem unknown_attribute_fails:
  "(name \<notin> set (m_float_attribute_names c) \<longrightarrow>
      float_buffer_index c name = Inl UnknownAttribute \<and>
      (\<forall>mem this b. blocks mem this = Some b \<and> containers mem (m_container b) = Some c \<longrightarrow>
         float_buffer mem this name = Inl UnknownAttribute)) \<and>
   (name \<notin> set (m_vec3_attribute_names c) \<longrightarrow>
      vec3_buffer_index c name = Inl UnknownAttribute \<and>
      (\<forall>mem this b. blocks mem this = Some b \<and> containers mem (m_container b) = Some c \<longrightarrow>
         vec3_buffer mem this name = Inl UnknownAttribute))"
  by (simp add: float_buffer_index_def vec3_buffer_index_def float_buffer_def vec3_buffer_def
      index_unregistered)

theorem unknown_attribute_fails_witness:
  "(\<exists>c. containers scenario_memory 0 = Some c \<and>
        float_buffer_index c ''unknown'' = Inl UnknownAttribute \<and>
        vec3_buffer_index c ''mass'' = Inl UnknownAttribute) \<and>
   float_buffer scenario_memory 5 ''unknown'' = Inl UnknownAttribute \<and>
   vec3_buffer scenario_memory 5 ''mass'' = Inl UnknownAttribute"
  using unknown_attribute_fails [of "''unknown''"
      "\<lparr>m_block_size = 4, m_float_attribute_names = [''mass'', ''age''],
        m_vec3_attribute_names = [''position''], m_blocks = {5}\<rparr>"]
    unknown_attribute_fails [of "''mass''"
      "\<lparr>m_block_size = 4, m_float_attribute_names = [''mass'', ''age''],
        m_vec3_attribute_names = [''position''], m_blocks = {5}\<rparr>"]
    scenario_container_0 scenario_block_5
  by simp

subsection \<open>Allocation, new blocks and released blocks\<close>

lemma alloc_float_buffers_result:
  "alloc_float_buffers mem n len = Inr (ps, mem') \<Longrightarrow>
     ps = [next_free mem ..< next_free mem + n] \<and>
     next_free mem' = next_free mem + n \<and>
     heap_limit mem' = heap_limit mem \<and>
     containers mem' = containers mem \<and>
     blocks mem' = blocks mem \<and>
     vec3_arrays mem' = vec3_arrays mem \<and>
     (\<forall>p. float_arrays mem' p =
        (if next_free mem \<le> p \<and> p < next_free mem + n then Some (replicate len None)
         else float_arrays mem p))"
proof (induction n arbitrary: mem ps mem')
  case 0
  then show ?case by auto
next
  case (Suc n)
  let ?nf = "next_free mem"
  let ?mem1 = "mem\<lparr>next_free := ?nf + 1,
                    float_arrays := (float_arrays mem)(?nf \<mapsto> replicate len None)\<rparr>"
  from Suc.prems obtain ps' where
    rec: "alloc_float_buffers ?mem1 n len = Inr (ps', mem')" and ps: "ps = ?nf # ps'"
    by (auto simp: alloc_def split: if_splits sum.splits)
  from Suc.IH [OF rec] ps show ?case
    by (auto simp: upt_conv_Cons)
qed

lemma alloc_vec3_buffers_result:
  "alloc_vec3_buffers mem n len = Inr (ps, mem') \<Longrightarrow>
     ps = [next_free mem ..< next_free mem + n] \<and>
     next_free mem' = next_free mem + n \<and>
     heap_limit mem' = heap_limit mem \<and>
     containers mem' = containers mem \<and>
     blocks mem' = blocks mem \<and>
     float_arrays mem' = float_arrays mem \<and>
     (\<forall>p. vec3_arrays mem' p =
        (if next_free mem \<le> p \<and> p < next_free mem + n then Some (replicate len None)
         else vec3_arrays mem p))"
proof (induction n arbitrary: mem ps mem')
  case 0
  then show ?case by auto
next
  case (Suc n)
  let ?nf = "next_free mem"
  let ?mem1 = "mem\<lparr>next_free := ?nf + 1,
                    vec3_arrays := (vec3_arrays mem)(?nf \<mapsto> replicate len None)\<rparr>"
  from Suc.prems obtain ps' where
    rec: "alloc_vec3_buffers ?mem1 n len = Inr (ps', mem')" and ps: "ps = ?nf # ps'"
    by (auto simp: alloc_def split: if_splits sum.splits)
  from Suc.IH [OF rec] ps show ?case
    by (auto simp: upt_conv_Cons)
qed

lemma new_block_result:
  assumes c: "containers mem this = Some c"
    and nb: "new_block mem this = Inr (block, mem')"
  shows "block = next_free mem + length (m_float_attribute_names c)
                   + length (m_vec3_attribute_names c)"
    and "next_free mem' = block + 1"
    and "heap_limit mem' = heap_limit mem"
    and "containers mem' = (containers mem)(this \<mapsto> c\<lparr>m_blocks := insert block (m_blocks c)\<rparr>)"
    and "blocks mem' = (blocks mem)(block \<mapsto>
            \<lparr>m_container = this,
             m_float_buffers = [next_free mem ..<
                next_free mem + length (m_float_attribute_names c)],
             m_vec3_buffers = [next_free mem + length (m_float_attribute_names c) ..< block],
             m_active_amount = 0\<rparr>)"
    and "\<And>p. float_arrays mem' p =
           (if next_free mem \<le> p \<and> p < next_free mem + length (m_float_attribute_names c)
            then Some (replicate (unat (block_size c)) None) else float_arrays mem p)"
    and "\<And>p. vec3_arrays mem' p =
           (if next_free mem + length (m_float_attribute_names c) \<le> p \<and> p < block
            then Some (replicate (unat (block_size c)) None) else vec3_arrays mem p)"
proof -
  from c nb obtain fbufs mem1 vbufs mem2 mem3 where
    f: "alloc_float_buffers mem (length (m_float_attribute_names c)) (unat (block_size c)) =
          Inr (fbufs, mem1)" and
    v: "alloc_vec3_buffers mem1 (length (m_vec3_attribute_names c)) (unat (block_size c)) =
          Inr (vbufs, mem2)" and
    a: "alloc mem2 = Inr (block, mem3)" and
    m: "mem' = mem3\<lparr>blocks := (blocks mem3)
                  (block \<mapsto> ParticlesBlock_ctor this fbufs vbufs 0),
                containers := (containers mem3)
                  (this \<mapsto> c\<lparr>m_blocks := insert block (m_blocks c)\<rparr>)\<rparr>"
    by (auto simp: new_block_def split: sum.splits)
  note F = alloc_float_buffers_result [OF f]
  note V = alloc_vec3_buffers_result [OF v]
  from a have A: "block = next_free mem2" "mem3 = mem2\<lparr>next_free := next_free mem2 + 1\<rparr>"
    by (auto simp: alloc_def split: if_splits)
  show "block = next_free mem + length (m_float_attribute_names c)
                   + length (m_vec3_attribute_names c)"
    using F V A by simp
  show "next_free mem' = block + 1"
    using A m by simp
  show "heap_limit mem' = heap_limit mem"
    using F V A m by simp
  show "containers mem' = (containers mem)(this \<mapsto> c\<lparr>m_blocks := insert block (m_blocks c)\<rparr>)"
    using F V A m by simp
  show "blocks mem' = (blocks mem)(block \<mapsto>
            \<lparr>m_container = this,
             m_float_buffers = [next_free mem ..<
                next_free mem + length (m_float_attribute_names c)],
             m_vec3_buffers = [next_free mem + length (m_float_attribute_names c) ..< block],
             m_active_amount = 0\<rparr>)"
    using F V A m by (simp add: ParticlesBlock_ctor_def)
  show "\<And>p. float_arrays mem' p =
           (if next_free mem \<le> p \<and> p < next_free mem + length (m_float_attribute_names c)
            then Some (replicate (unat (block_size c)) None) else float_arrays mem p)"
    using F V A m by simp
  show "\<And>p. vec3_arrays mem' p =
           (if next_free mem + length (m_float_attribute_names c) \<le> p \<and> p < block
            then Some (replicate (unat (block_size c)) None) else vec3_arrays mem p)"
    using F V A m by simp
qed

lemma release_block_unowned:
  "containers mem this = Some c \<Longrightarrow> block \<notin> m_blocks c \<Longrightarrow>
   release_block mem this block = (Inl InvalidHandle, mem)"
  by (simp add: release_block_def)

lemma release_block_success:
  assumes "containers mem this = Some c" and "release_block mem this block = (Inr u, mem')"
  shows "block \<in> m_blocks c \<and>
         containers mem' = (containers mem)(this \<mapsto> c\<lparr>m_blocks := m_blocks c - {block}\<rparr>) \<and>
         blocks mem' = (blocks mem)(block := None) \<and>
         next_free mem' = next_free mem"
  using assms by (auto simp: release_block_def split: if_splits option.splits)

lemma release_block_container:
  assumes "containers mem cp = Some c" "release_block mem cp b = (r, mem')"
  shows "\<exists>c'. containers mem' cp = Some c' \<and>
              m_block_size c' = m_block_size c \<and>
              m_float_attribute_names c' = m_float_attribute_names c \<and>
              m_vec3_attribute_names c' = m_vec3_attribute_names c"
  using assms by (auto simp: release_block_def split: if_splits option.splits)

lemma release_block_containers:
  assumes "containers mem this = Some c" and "release_block mem this block = (r, mem')"
  shows "\<exists>c'. containers mem' = (containers mem)(this \<mapsto> c') \<and>
              m_block_size c' = m_block_size c \<and>
              m_float_attribute_names c' = m_float_attribute_names c \<and>
              m_vec3_attribute_names c' = m_vec3_attribute_names c"
proof (cases "block \<in> m_blocks c \<and> blocks mem block \<noteq> None")
  case True
  with assms have
    "containers mem' = (containers mem)(this \<mapsto> c\<lparr>m_blocks := m_blocks c - {block}\<rparr>)"
    by (auto simp: release_block_def)
  then show ?thesis
    by (intro exI [of _ "c\<lparr>m_blocks := m_blocks c - {block}\<rparr>"]) simp
next
  case False
  with assms have "mem' = mem"
    by (auto simp: release_block_def split: if_splits option.splits)
  with assms(1) have "containers mem' = (containers mem)(this \<mapsto> c)"
    by (simp add: map_upd_triv)
  then show ?thesis
    by (intro exI [of _ c]) simp
qed

lemma new_container_other:
  assumes "new_container mem n fs vs = Inr (p, mem')" and "p \<noteq> this"
  shows "containers mem' this = containers mem this"
  using assms
  by (auto simp: new_container_def alloc_def split: sum.splits if_splits)

text \<open>
  C4. In every container whose float names and whose vec3 names are pairwise different,
  whatever its live blocks, the name at position \<open>i\<close> of either list is looked up at index
  \<open>i\<close> (as a \<^verbatim>\<open>uint\<close>, and read back as the number \<open>i\<close> below \<open>2 ^ 32\<close>); with the
  float names mass, age the indices are 0 and 1. A constructed container has exactly the
  names it was constructed with, in that order, pairwise different. The lookups are
  functions of the container alone, so a repeated call gives the same index, and no
  operation changes them: \<open>new_block\<close> and \<open>release_block\<close> on the container keep both name
  lists and every lookup, and the operations on other containers, on blocks and on arrays
  leave the container as it is.
\<close>

theorem attribute_index_is_position:
  assumes df: "distinct (m_float_attribute_names c)"
    and dv: "distinct (m_vec3_attribute_names c)"
  shows "(m_float_attribute_names c = [''mass'', ''age''] \<longrightarrow>
            float_buffer_index c ''mass'' = Inr 0 \<and> float_buffer_index c ''age'' = Inr 1) \<and>
         (\<forall>i < length (m_float_attribute_names c).
            float_buffer_index c (m_float_attribute_names c ! i) = Inr (of_nat i) \<and>
            (i < 2 ^ 32 \<longrightarrow>
               (\<exists>w. float_buffer_index c (m_float_attribute_names c ! i) = Inr w \<and>
                    unat w = i))) \<and>
         (\<forall>i < length (m_vec3_attribute_names c).
            vec3_buffer_index c (m_vec3_attribute_names c ! i) = Inr (of_nat i) \<and>
            (i < 2 ^ 32 \<longrightarrow>
               (\<exists>w. vec3_buffer_index c (m_vec3_attribute_names c ! i) = Inr w \<and>
                    unat w = i))) \<and>
         (\<forall>n fs vs c0. ParticlesContainer_ctor n fs vs = Inr c0 \<longrightarrow>
            m_float_attribute_names c0 = fs \<and> m_vec3_attribute_names c0 = vs \<and>
            distinct fs \<and> distinct vs) \<and>
         (\<forall>mem this. containers mem this = Some c \<longrightarrow>
            (\<forall>block mem'. new_block mem this = Inr (block, mem') \<longrightarrow>
               (\<exists>c'. containers mem' this = Some c' \<and>
                  m_float_attribute_names c' = m_float_attribute_names c \<and>
                  m_vec3_attribute_names c' = m_vec3_attribute_names c \<and>
                  (\<forall>name. float_buffer_index c' name = float_buffer_index c name \<and>
                          vec3_buffer_index c' name = vec3_buffer_index c name))) \<and>
            (\<forall>block r mem'. release_block mem this block = (r, mem') \<longrightarrow>
               (\<exists>c'. containers mem' this = Some c' \<and>
                  m_float_attribute_names c' = m_float_attribute_names c \<and>
                  m_vec3_attribute_names c' = m_vec3_attribute_names c \<and>
                  (\<forall>name. float_buffer_index c' name = float_buffer_index c name \<and>
                          vec3_buffer_index c' name = vec3_buffer_index c name))) \<and>
            (\<forall>other block mem'. other \<noteq> this \<and> new_block mem other = Inr (block, mem') \<longrightarrow>
               containers mem' this = Some c) \<and>
            (\<forall>other block r mem'. other \<noteq> this \<and>
               release_block mem other block = (r, mem') \<longrightarrow>
               containers mem' this = Some c) \<and>
            (\<forall>n fs vs p mem'. new_container mem n fs vs = Inr (p, mem') \<and> p \<noteq> this \<longrightarrow>
               containers mem' this = Some c) \<and>
            (\<forall>b mem'. clear mem b = Inr mem' \<longrightarrow> containers mem' this = Some c) \<and>
            (\<forall>b a mem'. set_active_amount mem b a = Inr mem' \<longrightarrow>
               containers mem' this = Some c) \<and>
            (\<forall>p i v mem'. store_float mem p i v = Inr mem' \<longrightarrow>
               containers mem' this = Some c) \<and>
            (\<forall>p i v mem'. store_vec3 mem p i v = Inr mem' \<longrightarrow>
               containers mem' this = Some c))"
proof -
  have f: "\<forall>i < length (m_float_attribute_names c).
            float_buffer_index c (m_float_attribute_names c ! i) = Inr (of_nat i) \<and>
            (i < 2 ^ 32 \<longrightarrow>
               (\<exists>w. float_buffer_index c (m_float_attribute_names c ! i) = Inr w \<and>
                    unat w = i))"
    using df by (simp add: float_buffer_index_def index_registered unat_of_nat_32)
  have v: "\<forall>i < length (m_vec3_attribute_names c).
            vec3_buffer_index c (m_vec3_attribute_names c ! i) = Inr (of_nat i) \<and>
            (i < 2 ^ 32 \<longrightarrow>
               (\<exists>w. vec3_buffer_index c (m_vec3_attribute_names c ! i) = Inr w \<and>
                    unat w = i))"
    using dv by (simp add: vec3_buffer_index_def index_registered unat_of_nat_32)
  have m: "m_float_attribute_names c = [''mass'', ''age''] \<longrightarrow>
            float_buffer_index c ''mass'' = Inr 0 \<and> float_buffer_index c ''age'' = Inr 1"
    by (simp add: float_buffer_index_def)
  have k: "\<forall>n fs vs c0. ParticlesContainer_ctor n fs vs = Inr c0 \<longrightarrow>
            m_float_attribute_names c0 = fs \<and> m_vec3_attribute_names c0 = vs \<and>
            distinct fs \<and> distinct vs"
    by (auto simp: ctor_eq split: if_splits)
  have nb: "\<exists>c'. containers mem' this = Some c' \<and>
                  m_float_attribute_names c' = m_float_attribute_names c \<and>
                  m_vec3_attribute_names c' = m_vec3_attribute_names c \<and>
                  (\<forall>name. float_buffer_index c' name = float_buffer_index c name \<and>
                          vec3_buffer_index c' name = vec3_buffer_index c name)"
    if "containers mem this = Some c" "new_block mem this = Inr (block, mem')"
    for mem this block mem'
    using new_block_result(4) [OF that]
    by (simp add: float_buffer_index_def vec3_buffer_index_def)
  have rb: "\<exists>c'. containers mem' this = Some c' \<and>
                  m_float_attribute_names c' = m_float_attribute_names c \<and>
                  m_vec3_attribute_names c' = m_vec3_attribute_names c \<and>
                  (\<forall>name. float_buffer_index c' name = float_buffer_index c name \<and>
                          vec3_buffer_index c' name = vec3_buffer_index c name)"
    if "containers mem this = Some c" "release_block mem this block = (r, mem')"
    for mem this block r mem'
    using release_block_containers [OF that]
    by (auto simp: float_buffer_index_def vec3_buffer_index_def)
  have nbo: "containers mem' this = Some c"
    if "containers mem this = Some c" "other \<noteq> this" "new_block mem other = Inr (block, mem')"
    for mem this other block mem'
  proof (cases "containers mem other")
    case None
    with that(3) show ?thesis by (simp add: new_block_def)
  next
    case (Some d)
    from new_block_result(4) [OF Some that(3)] that(1,2) show ?thesis by simp
  qed
  have rbo: "containers mem' this = Some c"
    if "containers mem this = Some c" "other \<noteq> this"
      "release_block mem other block = (r, mem')"
    for mem this other block r mem'
  proof (cases "containers mem other")
    case None
    with that(3) have "mem' = mem" by (simp add: release_block_def)
    with that(1) show ?thesis by simp
  next
    case (Some d)
    from release_block_containers [OF Some that(3)] that(1,2) show ?thesis by auto
  qed
  have nc: "containers mem' this = Some c"
    if "containers mem this = Some c" "new_container mem n fs vs = Inr (p, mem')" "p \<noteq> this"
    for mem this n fs vs p mem'
    using new_container_other [OF that(2,3)] that(1) by simp
  have cl: "containers mem' this = Some c"
    if "containers mem this = Some c" "clear mem b = Inr mem'" for mem this b mem'
    using that by (auto simp: clear_def split: option.splits)
  have sa: "containers mem' this = Some c"
    if "containers mem this = Some c" "set_active_amount mem b a = Inr mem'"
    for mem this b a mem'
    using that by (auto simp: set_active_amount_def split: option.splits)
  have sf: "containers mem' this = Some c"
    if "containers mem this = Some c" "store_float mem p i x = Inr mem'"
    for mem this p i x mem'
    using that by (auto simp: store_float_def split: option.splits if_splits)
  have sv: "containers mem' this = Some c"
    if "containers mem this = Some c" "store_vec3 mem p i x = Inr mem'"
    for mem this p i x mem'
    using that by (auto simp: store_vec3_def split: option.splits if_splits)
  have ops: "\<forall>mem this. containers mem this = Some c \<longrightarrow>
            (\<forall>block mem'. new_block mem this = Inr (block, mem') \<longrightarrow>
               (\<exists>c'. containers mem' this = Some c' \<and>
                  m_float_attribute_names c' = m_float_attribute_names c \<and>
                  m_vec3_attribute_names c' = m_vec3_attribute_names c \<and>
                  (\<forall>name. float_buffer_index c' name = float_buffer_index c name \<and>
                          vec3_buffer_index c' name = vec3_buffer_index c name))) \<and>
            (\<forall>block r mem'. release_block mem this block = (r, mem') \<longrightarrow>
               (\<exists>c'. containers mem' this = Some c' \<and>
                  m_float_attribute_names c' = m_float_attribute_names c \<and>
                  m_vec3_attribute_names c' = m_vec3_attribute_names c \<and>
                  (\<forall>name. float_buffer_index c' name = float_buffer_index c name \<and>
                          vec3_buffer_index c' name = vec3_buffer_index c name))) \<and>
            (\<forall>other block mem'. other \<noteq> this \<and> new_block mem other = Inr (block, mem') \<longrightarrow>
               containers mem' this = Some c) \<and>
            (\<forall>other block r mem'. other \<noteq> this \<and>
               release_block mem other block = (r, mem') \<longrightarrow>
               containers mem' this = Some c) \<and>
            (\<forall>n fs vs p mem'. new_container mem n fs vs = Inr (p, mem') \<and> p \<noteq> this \<longrightarrow>
               containers mem' this = Some c) \<and>
            (\<forall>b mem'. clear mem b = Inr mem' \<longrightarrow> containers mem' this = Some c) \<and>
            (\<forall>b a mem'. set_active_amount mem b a = Inr mem' \<longrightarrow>
               containers mem' this = Some c) \<and>
            (\<forall>p i v mem'. store_float mem p i v = Inr mem' \<longrightarrow>
               containers mem' this = Some c) \<and>
            (\<forall>p i v mem'. store_vec3 mem p i v = Inr mem' \<longrightarrow>
               containers mem' this = Some c)"
  proof (intro allI impI conjI)
    fix mem this block mem'
    assume "containers mem this = Some c" "new_block mem this = Inr (block, mem')"
    then show "\<exists>c'. containers mem' this = Some c' \<and>
                  m_float_attribute_names c' = m_float_attribute_names c \<and>
                  m_vec3_attribute_names c' = m_vec3_attribute_names c \<and>
                  (\<forall>name. float_buffer_index c' name = float_buffer_index c name \<and>
                          vec3_buffer_index c' name = vec3_buffer_index c name)"
      by (rule nb)
  next
    fix mem this block r mem'
    assume "containers mem this = Some c" "release_block mem this block = (r, mem')"
    then show "\<exists>c'. containers mem' this = Some c' \<and>
                  m_float_attribute_names c' = m_float_attribute_names c \<and>
                  m_vec3_attribute_names c' = m_vec3_attribute_names c \<and>
                  (\<forall>name. float_buffer_index c' name = float_buffer_index c name \<and>
                          vec3_buffer_index c' name = vec3_buffer_index c name)"
      by (rule rb)
  next
    fix mem this other block mem'
    assume "containers mem this = Some c"
      "other \<noteq> this \<and> new_block mem other = Inr (block, mem')"
    then show "containers mem' this = Some c"
      using nbo by blast
  next
    fix mem this other block r mem'
    assume "containers mem this = Some c"
      "other \<noteq> this \<and> release_block mem other block = (r, mem')"
    then show "containers mem' this = Some c"
      using rbo by blast
  next
    fix mem this n fs vs p mem'
    assume "containers mem this = Some c"
      "new_container mem n fs vs = Inr (p, mem') \<and> p \<noteq> this"
    then show "containers mem' this = Some c"
      using nc by blast
  next
    fix mem this b mem'
    assume "containers mem this = Some c" "clear mem b = Inr mem'"
    then show "containers mem' this = Some c" by (rule cl)
  next
    fix mem this b a mem'
    assume "containers mem this = Some c" "set_active_amount mem b a = Inr mem'"
    then show "containers mem' this = Some c" by (rule sa)
  next
    fix mem this p i v mem'
    assume "containers mem this = Some c" "store_float mem p i v = Inr mem'"
    then show "containers mem' this = Some c" by (rule sf)
  next
    fix mem this p i v mem'
    assume "containers mem this = Some c" "store_vec3 mem p i v = Inr mem'"
    then show "containers mem' this = Some c" by (rule sv)
  qed
  from m f v k ops show ?thesis
    by (intro conjI)
qed


theorem attribute_index_is_position_witness:
  "float_buffer_index
     \<lparr>m_block_size = 4, m_float_attribute_names = [''mass'', ''age''],
      m_vec3_attribute_names = [''position''], m_blocks = {5}\<rparr> ''mass'' = Inr 0 \<and>
   float_buffer_index
     \<lparr>m_block_size = 4, m_float_attribute_names = [''mass'', ''age''],
      m_vec3_attribute_names = [''position''], m_blocks = {5}\<rparr> ''age'' = Inr 1 \<and>
   vec3_buffer_index
     \<lparr>m_block_size = 4, m_float_attribute_names = [''mass'', ''age''],
      m_vec3_attribute_names = [''position''], m_blocks = {5}\<rparr> ''position'' = Inr 0 \<and>
   (\<exists>block mem' c'. new_block scenario_memory 0 = Inr (block, mem') \<and>
      containers mem' 0 = Some c' \<and>
      float_buffer_index c' ''mass'' = Inr 0 \<and>
      float_buffer_index c' ''age'' = Inr 1 \<and>
      vec3_buffer_index c' ''position'' = Inr 0) \<and>
   (\<exists>mem' c'. release_block scenario_memory 0 5 = (Inr (), mem') \<and>
      containers mem' 0 = Some c' \<and>
      float_buffer_index c' ''mass'' = Inr 0 \<and>
      float_buffer_index c' ''age'' = Inr 1 \<and>
      vec3_buffer_index c' ''position'' = Inr 0)"
proof -
  define c where
    "c = \<lparr>m_block_size = 4, m_float_attribute_names = [''mass'', ''age''],
          m_vec3_attribute_names = [''position''], m_blocks = {5 :: nat}\<rparr>"
  have df: "distinct (m_float_attribute_names c)" and dv: "distinct (m_vec3_attribute_names c)"
    by (simp_all add: c_def)
  have c0: "containers scenario_memory 0 = Some c"
    by (simp add: c_def scenario_container_0)
  note T = attribute_index_is_position [OF df dv]
  have names: "m_float_attribute_names c = [''mass'', ''age'']"
    by (simp add: c_def)
  from T [THEN conjunct1] names
  have f: "float_buffer_index c ''mass'' = Inr 0 \<and> float_buffer_index c ''age'' = Inr 1"
    by simp
  from T [THEN conjunct2, THEN conjunct2, THEN conjunct1]
  have v: "vec3_buffer_index c ''position'' = Inr 0"
    by (simp add: c_def)
  from scenario_new_block obtain block mem1 where
    nb: "new_block scenario_memory 0 = Inr (block, mem1)"
    by auto
  note O = T [THEN conjunct2, THEN conjunct2, THEN conjunct2, THEN conjunct2, rule_format,
      OF c0]
  from O [THEN conjunct1, rule_format, OF nb] obtain c1 where
    c1: "containers mem1 0 = Some c1"
      "\<forall>name. float_buffer_index c1 name = float_buffer_index c name \<and>
              vec3_buffer_index c1 name = vec3_buffer_index c name"
    by blast
  from scenario_release obtain mem2 where
    rb: "release_block scenario_memory 0 5 = (Inr (), mem2)"
    by auto
  from O [THEN conjunct2, THEN conjunct1, rule_format, OF rb] obtain c2 where
    c2: "containers mem2 0 = Some c2"
      "\<forall>name. float_buffer_index c2 name = float_buffer_index c name \<and>
              vec3_buffer_index c2 name = vec3_buffer_index c name"
    by blast
  have 1: "\<exists>block mem' c'. new_block scenario_memory 0 = Inr (block, mem') \<and>
      containers mem' 0 = Some c' \<and>
      float_buffer_index c' ''mass'' = Inr 0 \<and>
      float_buffer_index c' ''age'' = Inr 1 \<and>
      vec3_buffer_index c' ''position'' = Inr 0"
    using nb c1 f v by auto
  have 2: "\<exists>mem' c'. release_block scenario_memory 0 5 = (Inr (), mem') \<and>
      containers mem' 0 = Some c' \<and>
      float_buffer_index c' ''mass'' = Inr 0 \<and>
      float_buffer_index c' ''age'' = Inr 1 \<and>
      vec3_buffer_index c' ''position'' = Inr 0"
    using rb c2 f v by auto
  from f v 1 2 show ?thesis
    unfolding c_def by blast
qed

lemma ownership_ok_new_block:
  assumes c: "containers mem this = Some c"
    and nb: "new_block mem this = Inr (block, mem')"
    and ok: "ownership_ok mem"
  shows "ownership_ok mem'" and "block \<notin> m_blocks c"
proof -
  note R = new_block_result [OF c nb]
  have ge: "next_free mem \<le> block"
    using R(1) by simp
  have old: "b < next_free mem \<and> (case blocks mem b of None \<Rightarrow> False | Some x \<Rightarrow> m_container x = cp)"
    if "containers mem cp = Some d" "b \<in> m_blocks d" for cp d b
    using ok that unfolding ownership_ok_def by blast
  from old [OF c] ge show "block \<notin> m_blocks c"
    by fastforce
  show "ownership_ok mem'"
    unfolding ownership_ok_def
  proof (intro allI impI)
    fix cp d b
    assume h: "containers mem' cp = Some d \<and> b \<in> m_blocks d"
    show "b < next_free mem' \<and>
          (case blocks mem' b of None \<Rightarrow> False | Some x \<Rightarrow> m_container x = cp)"
    proof (cases "b = block")
      case True
      with h R(4) old ge have "cp = this"
        by (cases "cp = this") fastforce+
      with True R(2) R(5) show ?thesis by simp
    next
      case False
      with h R(4) c obtain d' where d': "containers mem cp = Some d'" "b \<in> m_blocks d'"
        by (cases "cp = this") auto
      from old [OF d'] False R(2) R(5) ge show ?thesis by simp
    qed
  qed
qed

lemma block_ok_new_block:
  assumes c: "containers mem this = Some c"
    and nb: "new_block mem this = Inr (block, mem')"
    and fl: "length (m_float_attribute_names c) < 2 ^ 32"
    and vl: "length (m_vec3_attribute_names c) < 2 ^ 32"
  shows "block_ok mem' block"
proof -
  note R = new_block_result [OF c nb]
  show ?thesis
    using fl vl R(1)
    by (simp add: block_ok_def R(4) R(5) R(6) R(7) block_size_def list_all_iff
        array_of_length_def)
qed

lemma ownership_foreign:
  assumes "ownership_ok mem" and "containers mem this = Some c"
    and "containers mem other = Some c2" and "other \<noteq> this" and "block \<in> m_blocks c2"
  shows "block \<notin> m_blocks c"
proof
  assume "block \<in> m_blocks c"
  with assms(1,2) have "case blocks mem block of None \<Rightarrow> False | Some b \<Rightarrow> m_container b = this"
    unfolding ownership_ok_def by blast
  moreover from assms(1,3,5)
  have "case blocks mem block of None \<Rightarrow> False | Some b \<Rightarrow> m_container b = other"
    unfolding ownership_ok_def by blast
  ultimately show False
    using assms(4) by (auto split: option.splits)
qed

text \<open>Ownership holds in the empty memory and every operation keeps it.\<close>

lemma ownership_ok_empty: "ownership_ok (empty_memory limit)"
  by (simp add: ownership_ok_def empty_memory_def)

lemma ownership_ok_new_container:
  assumes "ownership_ok mem" and "new_container mem n fs vs = Inr (p, mem')"
  shows "ownership_ok mem'"
proof -
  define c where "c = \<lparr>m_block_size = n, m_float_attribute_names = fs,
                         m_vec3_attribute_names = vs, m_blocks = {}\<rparr>"
  have c: "m_blocks c = {}"
    by (simp add: c_def)
  from assms(2) have
    m: "mem' = mem\<lparr>next_free := next_free mem + 1,
                    containers := (containers mem)(next_free mem \<mapsto> c)\<rparr>"
    by (auto simp: new_container_def ctor_eq alloc_def c_def split: if_splits sum.splits)
  show ?thesis
    unfolding ownership_ok_def
  proof (intro allI impI)
    fix cp d block
    assume h: "containers mem' cp = Some d \<and> block \<in> m_blocks d"
    with c m have "containers mem cp = Some d"
      by (cases "cp = next_free mem") auto
    with h assms(1) have "block < next_free mem \<and>
        (case blocks mem block of None \<Rightarrow> False | Some b \<Rightarrow> m_container b = cp)"
      unfolding ownership_ok_def by blast
    then show "block < next_free mem' \<and>
        (case blocks mem' block of None \<Rightarrow> False | Some b \<Rightarrow> m_container b = cp)"
      by (simp add: m)
  qed
qed

lemma ownership_ok_release_block:
  assumes ok: "ownership_ok mem" and r: "release_block mem this block = (r, mem')"
  shows "ownership_ok mem'"
proof (cases "mem' = mem")
  case True
  with ok show ?thesis by simp
next
  case False
  with r obtain c b where
    c: "containers mem this = Some c" and
    live: "block \<in> m_blocks c" and
    b: "blocks mem block = Some b" and
    cs: "containers mem' = (containers mem)(this \<mapsto> c\<lparr>m_blocks := m_blocks c - {block}\<rparr>)" and
    bs: "blocks mem' = (blocks mem)(block := None)" and
    nf: "next_free mem' = next_free mem"
    by (auto simp: release_block_def split: option.splits if_splits)
  have old: "x < next_free mem \<and>
        (case blocks mem x of None \<Rightarrow> False | Some y \<Rightarrow> m_container y = cp)"
    if "containers mem cp = Some d" "x \<in> m_blocks d" for cp d x
    using ok that unfolding ownership_ok_def by blast
  from old [OF c live] b have owner: "m_container b = this"
    by simp
  show ?thesis
    unfolding ownership_ok_def
  proof (intro allI impI)
    fix cp d x
    assume h: "containers mem' cp = Some d \<and> x \<in> m_blocks d"
    have "\<exists>d'. containers mem cp = Some d' \<and> x \<in> m_blocks d' \<and> x \<noteq> block"
    proof (cases "cp = this")
      case True
      with h cs c show ?thesis by auto
    next
      case False
      with h cs have d: "containers mem cp = Some d" "x \<in> m_blocks d"
        by auto
      from old [OF d] b owner False have "x \<noteq> block"
        by auto
      with d show ?thesis by blast
    qed
    then obtain d' where d': "containers mem cp = Some d'" "x \<in> m_blocks d'" "x \<noteq> block"
      by blast
    from old [OF d'(1,2)] d'(3) show "x < next_free mem' \<and>
        (case blocks mem' x of None \<Rightarrow> False | Some y \<Rightarrow> m_container y = cp)"
      by (simp add: nf bs)
  qed
qed

lemma ownership_ok_amount_update:
  assumes "ownership_ok mem" and "blocks mem this = Some b"
  shows "ownership_ok (mem\<lparr>blocks := (blocks mem)(this \<mapsto> b\<lparr>m_active_amount := n\<rparr>)\<rparr>)"
  unfolding ownership_ok_def
proof (intro allI impI)
  fix cp d x
  assume "containers (mem\<lparr>blocks := (blocks mem)(this \<mapsto> b\<lparr>m_active_amount := n\<rparr>)\<rparr>) cp =
            Some d \<and> x \<in> m_blocks d"
  then have "containers mem cp = Some d \<and> x \<in> m_blocks d"
    by simp
  with assms(1) have "x < next_free mem \<and>
        (case blocks mem x of None \<Rightarrow> False | Some y \<Rightarrow> m_container y = cp)"
    unfolding ownership_ok_def by blast
  with assms(2) show "x < next_free (mem\<lparr>blocks := (blocks mem)(this \<mapsto> b\<lparr>m_active_amount := n\<rparr>)\<rparr>) \<and>
        (case blocks (mem\<lparr>blocks := (blocks mem)(this \<mapsto> b\<lparr>m_active_amount := n\<rparr>)\<rparr>) x of
           None \<Rightarrow> False | Some y \<Rightarrow> m_container y = cp)"
    by (cases "x = this") auto
qed

lemma ownership_ok_clear: "ownership_ok mem \<Longrightarrow> clear mem this = Inr mem' \<Longrightarrow> ownership_ok mem'"
  by (auto simp: clear_def ownership_ok_amount_update split: option.splits)

lemma ownership_ok_set_active_amount:
  "ownership_ok mem \<Longrightarrow> set_active_amount mem this n = Inr mem' \<Longrightarrow> ownership_ok mem'"
  by (auto simp: set_active_amount_def ownership_ok_amount_update split: option.splits)

lemma ownership_ok_arrays:
  "ownership_ok (mem\<lparr>float_arrays := fa\<rparr>) = ownership_ok mem"
  "ownership_ok (mem\<lparr>vec3_arrays := va\<rparr>) = ownership_ok mem"
  by (simp_all add: ownership_ok_def)

lemma ownership_ok_store_float:
  "ownership_ok mem \<Longrightarrow> store_float mem p i v = Inr mem' \<Longrightarrow> ownership_ok mem'"
  by (auto simp: store_float_def ownership_ok_arrays split: option.splits if_splits)

lemma ownership_ok_store_vec3:
  "ownership_ok mem \<Longrightarrow> store_vec3 mem p i v = Inr mem' \<Longrightarrow> ownership_ok mem'"
  by (auto simp: store_vec3_def ownership_ok_arrays split: option.splits if_splits)

text \<open>
  C5. The block returned by \<open>new_block\<close> has the active amount 0, the size of its container
  and, when the block size is not 0, is not full. It refers to the container, carries one
  float buffer per float attribute and one vec3 buffer per vec3 attribute (as many as
  \<open>float_attribute_amount\<close> and \<open>vec3_attribute_amount\<close> say, for name lists shorter than
  \<open>2 ^ 32\<close>), pairwise different, each a fresh array of \<open>block_size\<close> cells. The block is
  well formed. The live-block set of the container
  grows by exactly that block: it is the old set with the block inserted, and where
  ownership holds the block was not in it before.
\<close>

theorem new_block_is_empty_and_registered:
  assumes "containers mem this = Some c" and "new_block mem this = Inr (block, mem')"
  shows "active_amount mem' block = Inr 0 \<and>
         size_block mem' block = Inr (block_size c) \<and>
         (block_size c \<noteq> 0 \<longrightarrow> is_full mem' block = Inr False) \<and>
         container mem' block = Inr this \<and>
         (\<exists>fbufs vbufs.
            float_buffers mem' block = Inr fbufs \<and>
            vec3_buffers mem' block = Inr vbufs \<and>
            length fbufs = length (m_float_attribute_names c) \<and>
            length vbufs = length (m_vec3_attribute_names c) \<and>
            (length (m_float_attribute_names c) < 2 ^ 32 \<longrightarrow>
               unat (float_attribute_amount c) = length fbufs) \<and>
            (length (m_vec3_attribute_names c) < 2 ^ 32 \<longrightarrow>
               unat (vec3_attribute_amount c) = length vbufs) \<and>
            distinct fbufs \<and> distinct vbufs \<and>
            (\<forall>p \<in> set fbufs.
               float_arrays mem' p = Some (replicate (unat (block_size c)) None)) \<and>
            (\<forall>p \<in> set vbufs.
               vec3_arrays mem' p = Some (replicate (unat (block_size c)) None))) \<and>
         (\<exists>c'. containers mem' this = Some c' \<and>
            active_blocks c' = insert block (active_blocks c) \<and>
            block_size c' = block_size c \<and>
            m_float_attribute_names c' = m_float_attribute_names c \<and>
            m_vec3_attribute_names c' = m_vec3_attribute_names c) \<and>
         (ownership_ok mem \<longrightarrow> block \<notin> active_blocks c \<and> ownership_ok mem') \<and>
         (length (m_float_attribute_names c) < 2 ^ 32 \<and>
          length (m_vec3_attribute_names c) < 2 ^ 32 \<longrightarrow> block_ok mem' block)"
proof -
  note R = new_block_result [OF assms]
  have 1: "active_amount mem' block = Inr 0"
    by (simp add: active_amount_def R(5))
  have 2: "size_block mem' block = Inr (block_size c)"
    by (simp add: size_block_def R(4) R(5) block_size_def)
  have 3: "block_size c \<noteq> 0 \<longrightarrow> is_full mem' block = Inr False"
    using 2 by (auto simp: is_full_def R(5))
  have 4: "container mem' block = Inr this"
    by (simp add: container_def R(5))
  have 5: "\<exists>fbufs vbufs.
            float_buffers mem' block = Inr fbufs \<and>
            vec3_buffers mem' block = Inr vbufs \<and>
            length fbufs = length (m_float_attribute_names c) \<and>
            length vbufs = length (m_vec3_attribute_names c) \<and>
            (length (m_float_attribute_names c) < 2 ^ 32 \<longrightarrow>
               unat (float_attribute_amount c) = length fbufs) \<and>
            (length (m_vec3_attribute_names c) < 2 ^ 32 \<longrightarrow>
               unat (vec3_attribute_amount c) = length vbufs) \<and>
            distinct fbufs \<and> distinct vbufs \<and>
            (\<forall>p \<in> set fbufs.
               float_arrays mem' p = Some (replicate (unat (block_size c)) None)) \<and>
            (\<forall>p \<in> set vbufs.
               vec3_arrays mem' p = Some (replicate (unat (block_size c)) None))"
    using R(1)
    by (simp add: float_buffers_def vec3_buffers_def R(5) R(6) R(7) attribute_amounts)
  have 6: "\<exists>c'. containers mem' this = Some c' \<and>
            active_blocks c' = insert block (active_blocks c) \<and>
            block_size c' = block_size c \<and>
            m_float_attribute_names c' = m_float_attribute_names c \<and>
            m_vec3_attribute_names c' = m_vec3_attribute_names c"
    by (simp add: R(4) active_blocks_def block_size_def)
  have 7: "ownership_ok mem \<longrightarrow> block \<notin> active_blocks c \<and> ownership_ok mem'"
    using ownership_ok_new_block [OF assms] by (simp add: active_blocks_def)
  have 8: "length (m_float_attribute_names c) < 2 ^ 32 \<and>
          length (m_vec3_attribute_names c) < 2 ^ 32 \<longrightarrow> block_ok mem' block"
    using block_ok_new_block [OF assms] by simp
  from 1 2 3 4 5 6 7 8 show ?thesis by blast
qed

theorem new_block_is_empty_and_registered_witness:
  "\<exists>block mem'. new_block scenario_memory 0 = Inr (block, mem') \<and>
     active_amount mem' block = Inr 0 \<and>
     is_full mem' block = Inr False \<and>
     block \<noteq> 5 \<and>
     (\<exists>c'. containers mem' 0 = Some c' \<and> active_blocks c' = {block, 5}) \<and>
     ownership_ok mem' \<and>
     block_ok mem' block"
proof -
  from scenario_new_block obtain block mem' where
    nb: "new_block scenario_memory 0 = Inr (block, mem')"
    by auto
  from new_block_is_empty_and_registered [OF scenario_container_0 nb] scenario_ownership_ok nb
  show ?thesis
    by (auto simp: block_size_def active_blocks_def)
qed

text \<open>
  C1. Releasing a block that is not in the live-block set of the container fails with
  \<open>InvalidHandle\<close> and returns the memory unchanged, the live-block set with it. That
  covers the two ways a handle is not owned: after a successful release the same handle is
  rejected, and where ownership holds a live block of another container is rejected.
\<close>

theorem release_block_rejects_unowned_handle:
  assumes "containers mem this = Some c"
  shows "(block \<notin> active_blocks c \<longrightarrow>
            release_block mem this block = (Inl InvalidHandle, mem)) \<and>
         (\<forall>mem'. release_block mem this block = (Inr (), mem') \<longrightarrow>
            (\<exists>c'. containers mem' this = Some c' \<and>
                  active_blocks c' = active_blocks c - {block}) \<and>
            release_block mem' this block = (Inl InvalidHandle, mem')) \<and>
         (\<forall>other c2. ownership_ok mem \<and> other \<noteq> this \<and>
            containers mem other = Some c2 \<and> block \<in> active_blocks c2 \<longrightarrow>
            release_block mem this block = (Inl InvalidHandle, mem))"
proof (intro conjI allI impI)
  assume "block \<notin> active_blocks c"
  with assms show "release_block mem this block = (Inl InvalidHandle, mem)"
    by (simp add: release_block_unowned active_blocks_def)
next
  fix mem'
  assume r: "release_block mem this block = (Inr (), mem')"
  note S = release_block_success [OF assms r]
  from S show "\<exists>c'. containers mem' this = Some c' \<and>
                  active_blocks c' = active_blocks c - {block}"
    by (simp add: active_blocks_def)
  from S have "containers mem' this = Some (c\<lparr>m_blocks := m_blocks c - {block}\<rparr>)"
    by simp
  then show "release_block mem' this block = (Inl InvalidHandle, mem')"
    by (rule release_block_unowned) simp
next
  fix other c2
  assume "ownership_ok mem \<and> other \<noteq> this \<and>
            containers mem other = Some c2 \<and> block \<in> active_blocks c2"
  with assms have "block \<notin> m_blocks c"
    using ownership_foreign [of mem this c other c2 block] by (simp add: active_blocks_def)
  with assms show "release_block mem this block = (Inl InvalidHandle, mem)"
    by (rule release_block_unowned)
qed

theorem release_block_rejects_unowned_handle_witness:
  "release_block scenario_memory 0 7 = (Inl InvalidHandle, scenario_memory) \<and>
   release_block scenario_memory 0 9 = (Inl InvalidHandle, scenario_memory) \<and>
   (\<exists>mem'. release_block scenario_memory 0 5 = (Inr (), mem') \<and>
      release_block mem' 0 5 = (Inl InvalidHandle, mem'))"
proof -
  from scenario_release obtain mem' where r: "release_block scenario_memory 0 5 = (Inr (), mem')"
    by auto
  from release_block_rejects_unowned_handle [OF scenario_container_0, of 7]
    release_block_rejects_unowned_handle [OF scenario_container_0, of 9]
    release_block_rejects_unowned_handle [OF scenario_container_0, of 5]
    scenario_ownership_ok scenario_container_1 r
  show ?thesis
    by (auto simp: active_blocks_def)
qed

subsection \<open>The counters of a block\<close>

lemma float_buffer_amount_update:
  "blocks mem this = Some b \<Longrightarrow>
   float_buffer (mem\<lparr>blocks := (blocks mem)(this \<mapsto> b\<lparr>m_active_amount := n\<rparr>)\<rparr>) q name =
   float_buffer mem q name"
  by (cases "q = this") (simp_all add: float_buffer_def split: option.splits sum.splits)

lemma vec3_buffer_amount_update:
  "blocks mem this = Some b \<Longrightarrow>
   vec3_buffer (mem\<lparr>blocks := (blocks mem)(this \<mapsto> b\<lparr>m_active_amount := n\<rparr>)\<rparr>) q name =
   vec3_buffer mem q name"
  by (cases "q = this") (simp_all add: vec3_buffer_def split: option.splits sum.splits)

lemma float_cell_amount_update:
  "blocks mem this = Some b \<Longrightarrow>
   float_cell (mem\<lparr>blocks := (blocks mem)(this \<mapsto> b\<lparr>m_active_amount := n\<rparr>)\<rparr>) q name i =
   float_cell mem q name i"
  by (simp add: float_cell_def float_buffer_amount_update split: sum.splits)

text \<open>
  C7. For a block of the memory whose container exists, \<open>is_full\<close> returns whether the
  active amount equals the block size of the container. After the active amount is set to
  the block size it returns true, and after it is set to anything below it returns false.
\<close>

theorem is_full_iff_active_amount_is_block_size:
  assumes "blocks mem this = Some b" and "containers mem (m_container b) = Some c"
  shows "is_full mem this = Inr (m_active_amount b = block_size c) \<and>
         active_amount mem this = Inr (m_active_amount b) \<and>
         size_block mem this = Inr (block_size c) \<and>
         (\<exists>mem'. set_active_amount mem this (block_size c) = Inr mem' \<and>
                 is_full mem' this = Inr True) \<and>
         (\<forall>n. n < block_size c \<longrightarrow>
            (\<exists>mem'. set_active_amount mem this n = Inr mem' \<and>
                    is_full mem' this = Inr False))"
  using assms
  by (auto simp: is_full_def size_block_def active_amount_def set_active_amount_def)

theorem is_full_iff_active_amount_is_block_size_witness:
  "is_full scenario_memory 5 = Inr False \<and>
   (\<exists>mem'. set_active_amount scenario_memory 5 4 = Inr mem' \<and> is_full mem' 5 = Inr True) \<and>
   (\<exists>mem'. set_active_amount scenario_memory 5 3 = Inr mem' \<and> is_full mem' 5 = Inr False)"
  using is_full_iff_active_amount_is_block_size [OF scenario_block_5 scenario_block_5_container]
  by (simp add: block_size_def)

text \<open>
  C8. \<open>clear\<close> succeeds on every block of the memory and sets its active amount to 0.
  Everything else stays: all float and vec3 arrays, the containers with their live-block
  sets and block sizes, the other blocks, the buffers and the container of the block, its
  size, and every cell seen through \<open>float_buffer\<close>.
\<close>

theorem clear_resets_only_active_amount:
  assumes "blocks mem this = Some b"
  shows "\<exists>mem'. clear mem this = Inr mem' \<and>
           active_amount mem' this = Inr 0 \<and>
           blocks mem' this = Some (b\<lparr>m_active_amount := 0\<rparr>) \<and>
           (\<forall>other. other \<noteq> this \<longrightarrow> blocks mem' other = blocks mem other) \<and>
           float_arrays mem' = float_arrays mem \<and>
           vec3_arrays mem' = vec3_arrays mem \<and>
           containers mem' = containers mem \<and>
           next_free mem' = next_free mem \<and>
           heap_limit mem' = heap_limit mem \<and>
           float_buffers mem' this = float_buffers mem this \<and>
           vec3_buffers mem' this = vec3_buffers mem this \<and>
           container mem' this = container mem this \<and>
           size_block mem' this = size_block mem this \<and>
           (\<forall>name i. float_cell mem' this name i = float_cell mem this name i)"
  using assms
  by (simp add: clear_def active_amount_def float_buffers_def vec3_buffers_def container_def
      size_block_def float_cell_amount_update)

theorem clear_resets_only_active_amount_witness:
  "\<exists>mem1 mem2 mem'.
     set_active_amount scenario_memory 5 3 = Inr mem1 \<and>
     store_float mem1 2 0 1069547520 = Inr mem2 \<and>
     active_amount mem2 5 = Inr 3 \<and>
     float_cell mem2 5 ''mass'' 0 = Inr (Some 1069547520) \<and>
     clear mem2 5 = Inr mem' \<and>
     active_amount mem' 5 = Inr 0 \<and>
     float_cell mem' 5 ''mass'' 0 = Inr (Some 1069547520) \<and>
     float_arrays mem' = float_arrays mem2 \<and>
     vec3_arrays mem' = vec3_arrays mem2 \<and>
     containers mem' = containers mem2 \<and>
     size_block mem' 5 = Inr 4"
proof -
  define b where
    "b = \<lparr>m_container = 0, m_float_buffers = [2, 3 :: nat], m_vec3_buffers = [4 :: nat],
          m_active_amount = 3\<rparr>"
  define mem1 where "mem1 = scenario_memory\<lparr>blocks := (blocks scenario_memory)(5 \<mapsto> b)\<rparr>"
  define mem2 where
    "mem2 = mem1\<lparr>float_arrays := (float_arrays mem1)
               (2 \<mapsto> [Some 1069547520, None, None, None])\<rparr>"
  have s1: "set_active_amount scenario_memory 5 3 = Inr mem1"
    by (simp add: set_active_amount_def scenario_block_5 mem1_def b_def)
  have s2: "store_float mem1 2 0 1069547520 = Inr mem2"
    by (simp add: store_float_def mem1_def mem2_def scenario_float_array_2)
  have b2: "blocks mem2 5 = Some b"
    by (simp add: mem2_def mem1_def)
  have c2: "containers mem2 0 =
      Some \<lparr>m_block_size = 4, m_float_attribute_names = [''mass'', ''age''],
            m_vec3_attribute_names = [''position''], m_blocks = {5}\<rparr>"
    by (simp add: mem2_def mem1_def scenario_container_0)
  have a2: "active_amount mem2 5 = Inr 3"
    by (simp add: active_amount_def b2 b_def)
  have fb2: "float_buffer mem2 5 ''mass'' = Inr 2"
    by (simp add: float_buffer_def b2 b_def c2 float_buffer_index_def at_index_def)
  have cell2: "float_cell mem2 5 ''mass'' 0 = Inr (Some 1069547520)"
    by (simp add: float_cell_def fb2) (simp add: mem2_def)
  have sz2: "size_block mem2 5 = Inr 4"
    by (simp add: size_block_def b2 b_def c2 block_size_def)
  from clear_resets_only_active_amount [OF b2] obtain mem' where
    "clear mem2 5 = Inr mem'" "active_amount mem' 5 = Inr 0"
    "float_arrays mem' = float_arrays mem2" "vec3_arrays mem' = vec3_arrays mem2"
    "containers mem' = containers mem2" "size_block mem' 5 = size_block mem2 5"
    "\<forall>name i. float_cell mem' 5 name i = float_cell mem2 5 name i"
    by blast
  with s1 s2 a2 cell2 sz2 show ?thesis
    by (intro exI [of _ mem1] exI [of _ mem2] exI [of _ mem']) simp
qed

text \<open>
  C9. \<open>next_inactive_index\<close> returns the active amount of the block. After the caller has
  stored the active amount plus one it returns that value, one more than before in
  \<^verbatim>\<open>uint\<close> arithmetic and as a number when the sum is below \<open>2 ^ 32\<close>. The function
  only reads: it takes the memory and returns no memory.
\<close>

theorem next_inactive_index_is_active_amount:
  assumes "blocks mem this = Some b"
  shows "next_inactive_index mem this = Inr (m_active_amount b) \<and>
         next_inactive_index mem this = active_amount mem this \<and>
         (\<exists>mem'. set_active_amount mem this (m_active_amount b + 1) = Inr mem' \<and>
                 next_inactive_index mem' this = Inr (m_active_amount b + 1) \<and>
                 (unat (m_active_amount b) + 1 < 2 ^ 32 \<longrightarrow>
                    (\<exists>w. next_inactive_index mem' this = Inr w \<and>
                         unat w = unat (m_active_amount b) + 1)))"
  using assms unat_add_lem [of "m_active_amount b" 1]
  by (simp add: next_inactive_index_def active_amount_def set_active_amount_def)

theorem next_inactive_index_is_active_amount_witness:
  "next_inactive_index scenario_memory 5 = Inr 0 \<and>
   (\<exists>mem'. set_active_amount scenario_memory 5 1 = Inr mem' \<and>
           next_inactive_index mem' 5 = Inr 1)"
  using next_inactive_index_is_active_amount [OF scenario_block_5]
  by auto

text \<open>
  C10. \<open>size_block\<close> returns the block size of the container the block refers to, whatever
  the other fields of the block are, so two blocks of one container have the same size, and
  \<open>is_full\<close> compares the active amount with that value. When the block is full,
  \<open>next_inactive_index\<close> returns the block size, which is not below the block size: a read or
  write at that index of an array of \<open>block_size\<close> cells is outside the array.
\<close>

theorem block_capacity_is_container_block_size:
  assumes "blocks mem this = Some b" and "containers mem (m_container b) = Some c"
  shows "size_block mem this = Inr (block_size c) \<and>
         (\<forall>b'. m_container b' = m_container b \<longrightarrow>
            size_block (mem\<lparr>blocks := (blocks mem)(this \<mapsto> b')\<rparr>) this = Inr (block_size c)) \<and>
         (\<forall>other b'. blocks mem other = Some b' \<and> m_container b' = m_container b \<longrightarrow>
            size_block mem other = size_block mem this) \<and>
         is_full mem this = Inr (m_active_amount b = block_size c) \<and>
         (is_full mem this = Inr True \<longrightarrow>
            next_inactive_index mem this = Inr (block_size c) \<and>
            (\<forall>i. next_inactive_index mem this = Inr i \<longrightarrow> \<not> i < block_size c) \<and>
            (\<forall>p cells v. float_arrays mem p = Some cells \<and>
               length cells = unat (block_size c) \<longrightarrow>
               store_float mem p (unat (block_size c)) v = Inl UndefinedBehaviour \<and>
               load_float mem p (unat (block_size c)) = Inl UndefinedBehaviour))"
  using assms
  by (auto simp: size_block_def is_full_def next_inactive_index_def store_float_def
      load_float_def)

theorem block_capacity_is_container_block_size_witness:
  "size_block scenario_memory 5 = Inr 4 \<and>
   size_block scenario_memory 7 = Inr 2 \<and>
   (\<exists>mem'. set_active_amount scenario_memory 7 2 = Inr mem' \<and>
      is_full mem' 7 = Inr True \<and>
      next_inactive_index mem' 7 = Inr 2 \<and>
      store_float mem' 6 2 7 = Inl UndefinedBehaviour)"
proof -
  define mem' where
    "mem' = scenario_memory\<lparr>blocks := (blocks scenario_memory)
       (7 \<mapsto> \<lparr>m_container = 1, m_float_buffers = [6], m_vec3_buffers = [],
              m_active_amount = 2\<rparr>)\<rparr>"
  have s: "set_active_amount scenario_memory 7 2 = Inr mem'"
    by (simp add: set_active_amount_def scenario_block_7 mem'_def)
  have b: "blocks mem' 7 = Some \<lparr>m_container = 1, m_float_buffers = [6], m_vec3_buffers = [],
              m_active_amount = 2\<rparr>"
    by (simp add: mem'_def)
  have c: "containers mem'
             (m_container \<lparr>m_container = 1, m_float_buffers = [6], m_vec3_buffers = [],
                m_active_amount = 2\<rparr>) =
           Some \<lparr>m_block_size = 2, m_float_attribute_names = [''mass''],
             m_vec3_attribute_names = [], m_blocks = {7}\<rparr>"
    by (simp add: mem'_def scenario_memory_def)
  have a: "float_arrays mem' 6 = Some [None, None]"
    by (simp add: mem'_def scenario_memory_def)
  from block_capacity_is_container_block_size [OF scenario_block_5 scenario_block_5_container]
    block_capacity_is_container_block_size [OF scenario_block_7 scenario_block_7_container]
    block_capacity_is_container_block_size [OF b c] s a
  show ?thesis
    by (simp add: block_size_def)
qed

subsection \<open>Writing and reading a float buffer\<close>

text \<open>Where \<open>float_buffer\<close> points in a well-formed block.\<close>

lemma float_buffer_ok:
  assumes ok: "block_ok mem this"
    and b: "blocks mem this = Some b"
    and c: "containers mem (m_container b) = Some c"
    and k: "index (m_float_attribute_names c) name = Inr k"
  shows "float_buffer mem this name = Inr (m_float_buffers b ! k)"
    and "k < length (m_float_buffers b)"
    and "\<exists>cells. float_arrays mem (m_float_buffers b ! k) = Some cells \<and>
           length cells = unat (block_size c)"
proof -
  from ok b c have len: "length (m_float_attribute_names c) < 2 ^ 32"
    and eq: "length (m_float_buffers b) = length (m_float_attribute_names c)"
    and arr: "list_all (array_of_length (float_arrays mem) (unat (block_size c)))
                (m_float_buffers b)"
    by (simp_all add: block_ok_def)
  from index_result [OF k] have kl: "k < length (m_float_attribute_names c)"
    by simp
  with eq show kb: "k < length (m_float_buffers b)"
    by simp
  from kl len have "unat (of_nat k :: uint) = k"
    by (simp add: unat_of_nat_32)
  with kb show "float_buffer mem this name = Inr (m_float_buffers b ! k)"
    by (simp add: float_buffer_def b c float_buffer_index_def k at_index_def)
  from arr kb have "array_of_length (float_arrays mem) (unat (block_size c))
                      (m_float_buffers b ! k)"
    by (simp add: list_all_length)
  then show "\<exists>cells. float_arrays mem (m_float_buffers b ! k) = Some cells \<and>
           length cells = unat (block_size c)"
    by (auto simp: array_of_length_def split: option.splits)
qed

lemma float_buffer_store_float:
  "float_buffer (mem\<lparr>float_arrays := fa\<rparr>) this name = float_buffer mem this name"
  by (simp add: float_buffer_def split: option.splits)

lemma block_ok_store_float:
  assumes "block_ok mem q" and "store_float mem p i v = Inr mem'"
  shows "block_ok mem' q"
proof -
  from assms(2) obtain cells where
    p: "float_arrays mem p = Some cells" and
    m: "mem' = mem\<lparr>float_arrays := (float_arrays mem)(p \<mapsto> cells[i := Some v])\<rparr>"
    by (auto simp: store_float_def split: option.splits if_splits)
  have "array_of_length (float_arrays mem') len a = array_of_length (float_arrays mem) len a"
    for len a
    using p m by (simp add: array_of_length_def)
  then have a: "array_of_length (float_arrays mem') len = array_of_length (float_arrays mem) len"
    for len
    by (rule ext)
  have s: "blocks mem' = blocks mem" "containers mem' = containers mem"
    "vec3_arrays mem' = vec3_arrays mem"
    using m by simp_all
  from assms(1) show ?thesis
    unfolding block_ok_def a s .
qed


lemma block_ok_store_vec3:
  assumes "block_ok mem q" and "store_vec3 mem p i v = Inr mem'"
  shows "block_ok mem' q"
proof -
  from assms(2) obtain cells where
    p: "vec3_arrays mem p = Some cells" and
    m: "mem' = mem\<lparr>vec3_arrays := (vec3_arrays mem)(p \<mapsto> cells[i := Some v])\<rparr>"
    by (auto simp: store_vec3_def split: option.splits if_splits)
  have "array_of_length (vec3_arrays mem') len a = array_of_length (vec3_arrays mem) len a"
    for len a
    using p m by (simp add: array_of_length_def)
  then have a: "array_of_length (vec3_arrays mem') len = array_of_length (vec3_arrays mem) len"
    for len
    by (rule ext)
  have s: "blocks mem' = blocks mem" "containers mem' = containers mem"
    "float_arrays mem' = float_arrays mem"
    using m by simp_all
  from assms(1) show ?thesis
    unfolding block_ok_def a s .
qed

lemma store_vec3_then_load:
  "store_vec3 mem p i v = Inr mem' \<Longrightarrow> load_vec3 mem' p i = Inr v"
  by (auto simp: store_vec3_def load_vec3_def split: option.splits if_splits)

lemma block_ok_amount_update:
  assumes "blocks mem this = Some b"
  shows "block_ok (mem\<lparr>blocks := (blocks mem)(this \<mapsto> b\<lparr>m_active_amount := n\<rparr>)\<rparr>) q =
         block_ok mem q"
proof (cases "q = this")
  case True
  with assms show ?thesis
    by (simp add: block_ok_def split: option.splits)
next
  case False
  then show ?thesis
    by (simp add: block_ok_def split: option.splits)
qed

lemma block_ok_clear: "block_ok mem q \<Longrightarrow> clear mem this = Inr mem' \<Longrightarrow> block_ok mem' q"
  by (auto simp: clear_def block_ok_amount_update split: option.splits)

lemma block_ok_set_active_amount:
  "block_ok mem q \<Longrightarrow> set_active_amount mem this n = Inr mem' \<Longrightarrow> block_ok mem' q"
  by (auto simp: set_active_amount_def block_ok_amount_update split: option.splits)

lemma scenario_block_ok: "block_ok scenario_memory 5"
  by (simp add: block_ok_def scenario_memory_def array_of_length_def block_size_def)

text \<open>
  C6. In a well-formed block (one buffer per attribute, pairwise different, each an array
  of \<open>block_size\<close> cells, as \<open>new_block\<close> makes it and as the stores and counter updates
  keep it), for a registered float attribute name and an index below the block size:
  \<open>float_buffer\<close> returns a pointer, the write through it succeeds, and reading the same
  index through \<open>float_buffer\<close> again returns the written value. Every other index of that
  buffer, every buffer of another float attribute name, all vec3 arrays, the blocks and the
  containers are as before.
\<close>

theorem float_buffer_write_then_read:
  assumes ok: "block_ok mem this"
    and b: "blocks mem this = Some b"
    and c: "containers mem (m_container b) = Some c"
    and name: "name \<in> set (m_float_attribute_names c)"
    and i: "i < unat (block_size c)"
  shows "\<exists>p mem'.
           float_buffer mem this name = Inr p \<and>
           store_float mem p i v = Inr mem' \<and>
           float_buffer mem' this name = Inr p \<and>
           load_float mem' p i = Inr v \<and>
           float_cell mem' this name i = Inr (Some v) \<and>
           (\<forall>j. j \<noteq> i \<longrightarrow> float_cell mem' this name j = float_cell mem this name j) \<and>
           (\<forall>other j. other \<noteq> name \<longrightarrow>
              float_buffer mem' this other = float_buffer mem this other \<and>
              float_cell mem' this other j = float_cell mem this other j) \<and>
           vec3_arrays mem' = vec3_arrays mem \<and>
           blocks mem' = blocks mem \<and>
           containers mem' = containers mem \<and>
           block_ok mem' this"
proof -
  from index_member [OF name] obtain k where
    k: "index (m_float_attribute_names c) name = Inr k"
    by auto
  define p where "p = m_float_buffers b ! k"
  note B = float_buffer_ok [OF ok b c k]
  from B(3) obtain cells where
    cells: "float_arrays mem p = Some cells" "length cells = unat (block_size c)"
    by (auto simp: p_def)
  define mem' where "mem' = mem\<lparr>float_arrays := (float_arrays mem)(p \<mapsto> cells[i := Some v])\<rparr>"
  have fa: "float_arrays mem' = (float_arrays mem)(p \<mapsto> cells[i := Some v])"
    by (simp add: mem'_def)
  have fb: "float_buffer mem this name = Inr p"
    using B(1) by (simp add: p_def)
  have st: "store_float mem p i v = Inr mem'"
    using cells i by (simp add: store_float_def mem'_def)
  have fb': "float_buffer mem' this n = float_buffer mem this n" for n
    by (simp add: mem'_def float_buffer_store_float)
  have ld: "load_float mem' p i = Inr v"
    using cells i by (simp add: load_float_def fa)
  have cell: "float_cell mem' this name i = Inr (Some v)"
    using cells i by (simp add: float_cell_def fb' fb fa)
  have same: "float_cell mem' this name j = float_cell mem this name j" if "j \<noteq> i" for j
    using cells that by (simp add: float_cell_def fb' fb fa)
  have others: "float_cell mem' this other j = float_cell mem this other j"
    if "other \<noteq> name" for other j
  proof (cases "index (m_float_attribute_names c) other")
    case (Inl e)
    then have "float_buffer mem this other = Inl e"
      by (simp add: float_buffer_def b c float_buffer_index_def)
    then show ?thesis
      by (simp add: float_cell_def fb')
  next
    case (Inr k')
    note B' = float_buffer_ok [OF ok b c Inr]
    from index_result [OF k] index_result [OF Inr] that have "k' \<noteq> k"
      by auto
    moreover from ok b c have "distinct (m_float_buffers b)"
      by (simp add: block_ok_def)
    ultimately have "m_float_buffers b ! k' \<noteq> p"
      using B(2) B'(2) by (simp add: p_def nth_eq_iff_index_eq)
    then show ?thesis
      by (simp add: float_cell_def fb' B'(1) fa)
  qed
  have frame: "vec3_arrays mem' = vec3_arrays mem" "blocks mem' = blocks mem"
    "containers mem' = containers mem"
    by (simp_all add: mem'_def)
  have ok': "block_ok mem' this"
    using block_ok_store_float [OF ok st] .
  have "float_buffer mem this name = Inr p \<and>
           store_float mem p i v = Inr mem' \<and>
           float_buffer mem' this name = Inr p \<and>
           load_float mem' p i = Inr v \<and>
           float_cell mem' this name i = Inr (Some v) \<and>
           (\<forall>j. j \<noteq> i \<longrightarrow> float_cell mem' this name j = float_cell mem this name j) \<and>
           (\<forall>other j. other \<noteq> name \<longrightarrow>
              float_buffer mem' this other = float_buffer mem this other \<and>
              float_cell mem' this other j = float_cell mem this other j) \<and>
           vec3_arrays mem' = vec3_arrays mem \<and>
           blocks mem' = blocks mem \<and>
           containers mem' = containers mem \<and>
           block_ok mem' this"
    using fb st ld cell same others frame ok' by (simp add: fb')
  then show ?thesis
    by (intro exI)
qed


theorem float_buffer_write_then_read_witness:
  "\<exists>p mem'.
     float_buffer scenario_memory 5 ''mass'' = Inr p \<and>
     store_float scenario_memory p 0 1069547520 = Inr mem' \<and>
     load_float mem' p 0 = Inr 1069547520 \<and>
     float_cell mem' 5 ''mass'' 0 = Inr (Some 1069547520) \<and>
     float_cell mem' 5 ''mass'' 1 = float_cell scenario_memory 5 ''mass'' 1 \<and>
     float_cell mem' 5 ''age'' 0 = float_cell scenario_memory 5 ''age'' 0 \<and>
     vec3_arrays mem' = vec3_arrays scenario_memory"
proof -
  have n: "''mass'' \<in> set (m_float_attribute_names
             \<lparr>m_block_size = 4, m_float_attribute_names = [''mass'', ''age''],
              m_vec3_attribute_names = [''position''], m_blocks = {5}\<rparr>)"
    by simp
  have i: "0 < unat (block_size
             \<lparr>m_block_size = 4, m_float_attribute_names = [''mass'', ''age''],
              m_vec3_attribute_names = [''position''], m_blocks = {5}\<rparr>)"
    by (simp add: block_size_def)
  from float_buffer_write_then_read
    [OF scenario_block_ok scenario_block_5 scenario_block_5_container n i, of 1069547520]
  obtain p mem' where
    "float_buffer scenario_memory 5 ''mass'' = Inr p"
    "store_float scenario_memory p 0 1069547520 = Inr mem'"
    "load_float mem' p 0 = Inr 1069547520"
    "float_cell mem' 5 ''mass'' 0 = Inr (Some 1069547520)"
    "\<forall>j. j \<noteq> 0 \<longrightarrow> float_cell mem' 5 ''mass'' j = float_cell scenario_memory 5 ''mass'' j"
    "\<forall>other j. other \<noteq> ''mass'' \<longrightarrow>
       float_buffer mem' 5 other = float_buffer scenario_memory 5 other \<and>
       float_cell mem' 5 other j = float_cell scenario_memory 5 other j"
    "vec3_arrays mem' = vec3_arrays scenario_memory"
    by blast
  then show ?thesis
    by (intro exI [of _ p] exI [of _ mem']) simp
qed


end
